theory Spec2Isabelle
  imports Complex_Main
begin

section \<open>WealthProjector: the computation engine of InvestmentCalculator.tsx\<close>

text \<open>
  The component holds its inputs in React state and derives two series from them:
  \<open>calculations\<close> (the historical growth series) and \<open>futureProjections\<close> (the
  strategy-driven forward projection), the latter calling
  \<open>calculatePerPeriodInvestment\<close> for the custom strategy.

  Numbers. A JavaScript \<open>number\<close> is modelled as a \<^typ>\<open>real\<close>: the development is
  about the arithmetic the formulas denote, not about IEEE-754 rounding error. Loop
  counters and period counts (\<open>duration\<close>, \<open>projectionDuration\<close>) are \<^typ>\<open>int\<close>.
  The source divides by a computed quantity in two places (the deflator
  \<open>1 + inflationPerPeriod\<close> and the solver's \<open>annuityFactor\<close>); there JavaScript
  yields a non-finite number when the divisor is zero, which a real number cannot
  express, so every theorem whose statement depends on the value of such a quotient
  assumes inputs for which the divisor is not zero (\<open>deflator_finite\<close>, \<open>solver_finite\<close>).

  The \<open>date\<close> field of a historical point is a locale-formatted string of the calendar;
  no arithmetic depends on it and it is left out of the record.
\<close>

subsection \<open>Types\<close>

text \<open>
  The string-literal unions become datatypes. \<open>ProjectionFrequency\<close> shares three literals
  with \<open>Frequency\<close>, so its constructors carry a \<open>P\<close>; \<open>'2x'\<close> is \<open>S2x\<close>. The two
  interfaces share the field names \<open>period\<close>, \<open>totalInvested\<close> and \<open>profit\<close>; those of
  \<open>CalculationData\<close> are written qualified.
\<close>

datatype Frequency = Once | Daily | Weekly | Monthly

datatype ProjectionFrequency = PYearly | PMonthly | PWeekly | PDaily

datatype ReinvestmentStrategy =
    S2x
  | Repeat
  | AllIn
  | DoubleDown
  | ShieldValue
  | LevelUp
  | PayYourself
  | CapitalProtect
  | TakeSalary
  | Custom

record CalculationData =
  period :: int
  totalInvested :: real
  currentValue :: real
  profit :: real
  displayValue :: real

record ProjectionData =
  period :: int
  startValue :: real
  newCash :: real
  totalInvested :: real
  profit :: real
  afterGrowth :: real
  cashOut :: real
  endValue :: real

text \<open>The \<open>useState\<close> cells of the component that the two series read.\<close>

record Config =
  investmentAmount :: real
  roiPercentage :: real
  duration :: int
  frequency :: Frequency
  showTotal :: bool
  enableInflation :: bool
  inflationRate :: real
  projectionFrequency :: ProjectionFrequency
  projectionDuration :: int
  reinvestmentStrategy :: ReinvestmentStrategy
  levelUpAmount :: real
  customTargetAmount :: real
  salaryAmount :: real

subsection \<open>Math.round\<close>

text \<open>\<open>Math.round\<close> rounds to the nearest integer, a tie going up (towards \<open>+\<infinity>\<close>).\<close>

definition Math_round :: "real \<Rightarrow> real" where
  "Math_round x = of_int \<lfloor>x + 1 / 2\<rfloor>"

subsection \<open>The historical series: \<open>calculations\<close>\<close>

text \<open>
  Lump-sum branch (\<open>frequency === 'once'\<close>). \<open>periodValue\<close> is the unrounded value the
  loop body computes for elapsed month \<open>i\<close>; \<open>totalInvested\<close> is the principal throughout.
\<close>

definition periodRate :: "Config \<Rightarrow> int \<Rightarrow> real" where
  "periodRate cfg i = (roiPercentage cfg / 100) * (of_int i / 12)"

definition periodInflation :: "Config \<Rightarrow> int \<Rightarrow> real" where
  "periodInflation cfg i =
     (if enableInflation cfg then 1 - (inflationRate cfg / 100) * (of_int i / 12) else 1)"

definition periodValue :: "Config \<Rightarrow> int \<Rightarrow> real" where
  "periodValue cfg i =
     (if i = 0 then investmentAmount cfg
      else investmentAmount cfg * (1 + periodRate cfg i) * periodInflation cfg i)"

text \<open>The record pushed by both branches: every numeric field goes through \<open>Math.round\<close>.\<close>

definition growthPoint :: "Config \<Rightarrow> int \<Rightarrow> real \<Rightarrow> real \<Rightarrow> CalculationData" where
  "growthPoint cfg i invested val =
     \<lparr>CalculationData.period = i,
      CalculationData.totalInvested = Math_round invested,
      currentValue = Math_round val,
      CalculationData.profit = Math_round (val - invested),
      displayValue = (if showTotal cfg then Math_round val else Math_round (val - invested))\<rparr>"

function once_loop :: "Config \<Rightarrow> int \<Rightarrow> CalculationData list \<Rightarrow> CalculationData list" where
  "once_loop cfg i data =
     (if i \<le> duration cfg
      then once_loop cfg (i + 1)
             (data @ [growthPoint cfg i (investmentAmount cfg) (periodValue cfg i)])
      else data)"
  by pat_completeness auto
termination
  by (relation "measure (\<lambda>(cfg, i, data). nat (duration cfg + 1 - i))") auto

text \<open>Recurring branch: true per-period compounding, deflated each period when inflation is on.\<close>

definition periodsPerYear :: "Config \<Rightarrow> real" where
  "periodsPerYear cfg =
     (if frequency cfg = Daily then 365 else if frequency cfg = Weekly then 52 else 12)"

definition totalPeriods :: "Config \<Rightarrow> int" where
  "totalPeriods cfg = \<lfloor>(of_int (duration cfg) / 12) * periodsPerYear cfg\<rfloor>"

definition ratePerPeriod :: "Config \<Rightarrow> real" where
  "ratePerPeriod cfg = roiPercentage cfg / 100 / periodsPerYear cfg"

definition inflationPerPeriod :: "Config \<Rightarrow> real" where
  "inflationPerPeriod cfg =
     (if enableInflation cfg then inflationRate cfg / 100 / periodsPerYear cfg else 0)"

definition nextInvested :: "Config \<Rightarrow> int \<Rightarrow> real \<Rightarrow> real" where
  "nextInvested cfg i invested = (if i > 0 then invested + investmentAmount cfg else invested)"

definition nextValue :: "Config \<Rightarrow> int \<Rightarrow> real \<Rightarrow> real" where
  "nextValue cfg i val =
     (if i > 0
      then (let grown = (val + investmentAmount cfg) * (1 + ratePerPeriod cfg)
            in if enableInflation cfg then grown / (1 + inflationPerPeriod cfg) else grown)
      else val)"

function recurring_loop ::
  "Config \<Rightarrow> int \<Rightarrow> real \<Rightarrow> real \<Rightarrow> CalculationData list \<Rightarrow> CalculationData list" where
  "recurring_loop cfg i invested val data =
     (if i \<le> totalPeriods cfg
      then recurring_loop cfg (i + 1) (nextInvested cfg i invested) (nextValue cfg i val)
             (data @ [growthPoint cfg i (nextInvested cfg i invested) (nextValue cfg i val)])
      else data)"
  by pat_completeness auto
termination
  by (relation "measure (\<lambda>(cfg, i, invested, val, data). nat (totalPeriods cfg + 1 - i))") auto

definition calculations :: "Config \<Rightarrow> CalculationData list" where
  "calculations cfg =
     (if frequency cfg = Once then once_loop cfg 0 [] else recurring_loop cfg 0 0 0 [])"

text \<open>\<open>calculations[calculations.length - 1]\<close> is \<open>undefined\<close> on the empty series.\<close>

definition finalData :: "Config \<Rightarrow> CalculationData option" where
  "finalData cfg = (if calculations cfg = [] then None else Some (last (calculations cfg)))"

subsection \<open>The unrounded quantities of the historical series\<close>

text \<open>
  \<open>running cfg j\<close> is the pair \<open>(totalInvested, currentValue)\<close> of the recurring loop on
  entering iteration \<open>j\<close>. \<open>unroundedInvested\<close>, \<open>unroundedValue\<close> and \<open>unroundedProfit\<close>
  are the three quantities the loop body of either branch hands to \<open>Math.round\<close> for the
  point at index \<open>k\<close> (\<open>const profit = periodValue - totalInvested\<close>, respectively
  \<open>currentValue - totalInvested\<close>). Lemma \<open>calculations_nth\<close> below ties them to the loops.
\<close>

fun running :: "Config \<Rightarrow> nat \<Rightarrow> real \<times> real" where
  "running cfg 0 = (0, 0)"
| "running cfg (Suc j) =
     (nextInvested cfg (int j) (fst (running cfg j)), nextValue cfg (int j) (snd (running cfg j)))"

definition unroundedInvested :: "Config \<Rightarrow> nat \<Rightarrow> real" where
  "unroundedInvested cfg k =
     (if frequency cfg = Once then investmentAmount cfg else fst (running cfg (Suc k)))"

definition unroundedValue :: "Config \<Rightarrow> nat \<Rightarrow> real" where
  "unroundedValue cfg k =
     (if frequency cfg = Once then periodValue cfg (int k) else snd (running cfg (Suc k)))"

definition unroundedProfit :: "Config \<Rightarrow> nat \<Rightarrow> real" where
  "unroundedProfit cfg k = unroundedValue cfg k - unroundedInvested cfg k"

subsection \<open>The solver: \<open>calculatePerPeriodInvestment\<close>\<close>

definition perPeriodRate :: "ProjectionFrequency \<Rightarrow> real \<Rightarrow> real" where
  "perPeriodRate freq annualRate =
     (case freq of
        PMonthly \<Rightarrow> annualRate / 12
      | PWeekly \<Rightarrow> annualRate / 52
      | PDaily \<Rightarrow> annualRate / 365
      | PYearly \<Rightarrow> annualRate)"

definition calculatePerPeriodInvestment ::
  "real \<Rightarrow> real \<Rightarrow> int \<Rightarrow> real \<Rightarrow> ProjectionFrequency \<Rightarrow> real" where
  "calculatePerPeriodInvestment startBalance targetAmount periods annualRate freq =
     (if periods \<le> 0 \<or> startBalance \<le> 0 then 0
      else
        let r = perPeriodRate freq annualRate in
        if r = 0 then (targetAmount - startBalance) / of_int periods
        else
          let growthFactor = (1 + r) ^ nat periods;
              futureValueOfStart = startBalance * growthFactor;
              amountNeeded = targetAmount - futureValueOfStart;
              annuityFactor = (growthFactor - 1) / r
          in amountNeeded / annuityFactor)"

subsection \<open>The forward projector: \<open>futureProjections\<close>\<close>

text \<open>\<open>getConfig\<close>: the per-period rate and the shield-value inflation rate (the latter
  ignores the inflation toggle).\<close>

definition rate :: "Config \<Rightarrow> real" where
  "rate cfg = perPeriodRate (projectionFrequency cfg) (roiPercentage cfg / 100)"

definition shieldInflation :: "Config \<Rightarrow> real" where
  "shieldInflation cfg = perPeriodRate (projectionFrequency cfg) (inflationRate cfg / 100)"

text \<open>
  The \<open>switch\<close> on the strategy: from \<open>startValue\<close> and \<open>previousProfit\<close> it sets the three
  locals \<open>(newCash, cashOut, endValue)\<close>, each initialised to \<open>0\<close>. The datatype is closed,
  so the \<open>default\<close> arm is unreachable. (Locals whose names are field names of
  \<open>ProjectionData\<close> are renamed: \<open>startVal\<close>, \<open>grown\<close>, \<open>withdrawn\<close>, \<open>cashIn\<close>, \<open>endVal\<close>.)
\<close>

definition customPerPeriodAmount :: "Config \<Rightarrow> CalculationData \<Rightarrow> real" where
  "customPerPeriodAmount cfg fd =
     calculatePerPeriodInvestment (currentValue fd) (customTargetAmount cfg)
       (projectionDuration cfg) (roiPercentage cfg / 100) (projectionFrequency cfg)"

definition applyStrategy ::
  "Config \<Rightarrow> CalculationData \<Rightarrow> real \<Rightarrow> real \<Rightarrow> real \<times> real \<times> real" where
  "applyStrategy cfg fd startVal previousProfit =
     (case reinvestmentStrategy cfg of
        S2x \<Rightarrow> (startVal, 0, (startVal + startVal) * (1 + rate cfg))
      | Repeat \<Rightarrow>
          (investmentAmount cfg, 0, (startVal + investmentAmount cfg) * (1 + rate cfg))
      | AllIn \<Rightarrow> (0, 0, startVal * (1 + rate cfg))
      | DoubleDown \<Rightarrow> (previousProfit, 0, (startVal + previousProfit) * (1 + rate cfg))
      | ShieldValue \<Rightarrow>
          (startVal * shieldInflation cfg, 0,
           (startVal + startVal * shieldInflation cfg) * (1 + rate cfg))
      | LevelUp \<Rightarrow> (levelUpAmount cfg, 0, (startVal + levelUpAmount cfg) * (1 + rate cfg))
      | PayYourself \<Rightarrow>
          (let payYourselfGrowth = startVal * rate cfg
           in (0, payYourselfGrowth / 2, startVal + payYourselfGrowth / 2))
      | CapitalProtect \<Rightarrow>
          (let excessOverPrincipal = max 0 (startVal - investmentAmount cfg);
               principalProfit = investmentAmount cfg * rate cfg
           in (0, excessOverPrincipal + principalProfit, investmentAmount cfg))
      | TakeSalary \<Rightarrow>
          (let grown = startVal * (1 + rate cfg);
               withdrawn = min (salaryAmount cfg) grown
           in (0, withdrawn, max 0 (grown - withdrawn)))
      | Custom \<Rightarrow>
          (let amount = customPerPeriodAmount cfg fd in
           if amount \<ge> 0 then (amount, 0, (startVal + amount) * (1 + rate cfg))
           else
             let grownValue = startVal * (1 + rate cfg);
                 withdrawn = min \<bar>amount\<bar> grownValue
             in (0, withdrawn, max 0 (grownValue - withdrawn))))"

text \<open>
  The unrounded values of one loop iteration, collected in a \<open>ProjectionData\<close>: the
  bootstrap for \<open>i = 1\<close>, otherwise the strategy's result with the derived
  \<open>totalInvested\<close>, \<open>actualProfit\<close> and \<open>afterGrowthValue\<close>.
\<close>

definition iteration ::
  "Config \<Rightarrow> CalculationData \<Rightarrow> int \<Rightarrow> real \<Rightarrow> real \<Rightarrow> ProjectionData" where
  "iteration cfg fd i balance previousProfit =
     (if i = 1 then
        (let year1Invested = balance;
             year1Profit = year1Invested * rate cfg;
             year1EndValue = year1Invested + year1Profit
         in \<lparr>period = i, startValue = 0, newCash = balance, totalInvested = year1Invested,
             profit = year1Profit, afterGrowth = year1EndValue, cashOut = 0,
             endValue = year1EndValue\<rparr>)
      else
        (case applyStrategy cfg fd balance previousProfit of
           (cashIn, withdrawn, endVal) \<Rightarrow>
             \<lparr>period = i, startValue = balance, newCash = cashIn,
              totalInvested = balance + cashIn,
              profit = (if cashIn > 0 then (balance + cashIn) * rate cfg
                        else balance * rate cfg),
              afterGrowth = (if cashIn > 0 then (balance + cashIn) * (1 + rate cfg)
                             else balance * (1 + rate cfg)),
              cashOut = withdrawn, endValue = endVal\<rparr>))"

text \<open>\<open>projections.push\<close> stores \<open>Math.round\<close> of every field (the bootstrap's literal
  \<open>0\<close>s are their own roundings).\<close>

definition rounded :: "ProjectionData \<Rightarrow> ProjectionData" where
  "rounded p =
     \<lparr>period = period p, startValue = Math_round (startValue p),
      newCash = Math_round (newCash p), totalInvested = Math_round (totalInvested p),
      profit = Math_round (profit p), afterGrowth = Math_round (afterGrowth p),
      cashOut = Math_round (cashOut p), endValue = Math_round (endValue p)\<rparr>"

text \<open>The loop carries \<open>balance\<close> and \<open>previousProfit\<close>, both assigned from the unrounded
  locals of the iteration.\<close>

function futureProjections_loop ::
  "Config \<Rightarrow> CalculationData \<Rightarrow> int \<Rightarrow> real \<Rightarrow> real \<Rightarrow> ProjectionData list
     \<Rightarrow> ProjectionData list" where
  "futureProjections_loop cfg fd i balance previousProfit projections =
     (if i \<le> projectionDuration cfg
      then futureProjections_loop cfg fd (i + 1)
             (endValue (iteration cfg fd i balance previousProfit))
             (profit (iteration cfg fd i balance previousProfit))
             (projections @ [rounded (iteration cfg fd i balance previousProfit)])
      else projections)"
  by pat_completeness auto
termination
  by (relation "measure (\<lambda>(cfg, fd, i, b, pp, ps). nat (projectionDuration cfg + 1 - i))") auto

definition futureProjections :: "Config \<Rightarrow> ProjectionData list option" where
  "futureProjections cfg =
     (case finalData cfg of
        None \<Rightarrow> None
      | Some fd \<Rightarrow> Some (futureProjections_loop cfg fd 1 (investmentAmount cfg) 0 []))"

text \<open>The initial values of the component's state cells.\<close>

definition defaults :: Config where
  "defaults =
     \<lparr>investmentAmount = 1000, roiPercentage = 10, duration = 12, frequency = Monthly,
      showTotal = True, enableInflation = False, inflationRate = 3,
      projectionFrequency = PYearly, projectionDuration = 10, reinvestmentStrategy = AllIn,
      levelUpAmount = 50, customTargetAmount = 50000, salaryAmount = 100\<rparr>"

subsection \<open>The state the projector's loop carries\<close>

text \<open>
  \<open>carried cfg fd k\<close> is the pair \<open>(balance, previousProfit)\<close> after \<open>k\<close> iterations of the
  loop, and \<open>unrounded cfg fd k\<close> the unrounded values of the iteration that follows (period
  \<open>k + 1\<close>, stored at index \<open>k\<close> of the output). Lemma \<open>futureProjections_eq\<close> below shows
  that the loop emits exactly the roundings of these.
\<close>

fun carried :: "Config \<Rightarrow> CalculationData \<Rightarrow> nat \<Rightarrow> real \<times> real" where
  "carried cfg fd 0 = (investmentAmount cfg, 0)"
| "carried cfg fd (Suc k) =
     (endValue (iteration cfg fd (int k + 1) (fst (carried cfg fd k)) (snd (carried cfg fd k))),
      profit (iteration cfg fd (int k + 1) (fst (carried cfg fd k)) (snd (carried cfg fd k))))"

definition unrounded :: "Config \<Rightarrow> CalculationData \<Rightarrow> nat \<Rightarrow> ProjectionData" where
  "unrounded cfg fd k =
     iteration cfg fd (int k + 1) (fst (carried cfg fd k)) (snd (carried cfg fd k))"

subsection \<open>The specification's strategy table\<close>

text \<open>
  The table of the specification (section 4.3), written column by column from its words:
  \<open>sv\<close> is \<open>startValue\<close>, \<open>orig\<close> the original principal, \<open>r\<close> the per-period rate, \<open>solved\<close> the solver's result. The
  \<open>endValue\<close> column refers to the \<open>newCash\<close> and \<open>cashOut\<close> columns as the table does.
\<close>

fun spec_newCash ::
  "ReinvestmentStrategy \<Rightarrow> real \<Rightarrow> real \<Rightarrow> real \<Rightarrow> real \<Rightarrow> real \<Rightarrow> real \<Rightarrow> real" where
  "spec_newCash S2x sv orig previousProfit shieldRate fixedParam solved = sv"
| "spec_newCash Repeat sv orig previousProfit shieldRate fixedParam solved = orig"
| "spec_newCash AllIn sv orig previousProfit shieldRate fixedParam solved = 0"
| "spec_newCash DoubleDown sv orig previousProfit shieldRate fixedParam solved =
     previousProfit"
| "spec_newCash ShieldValue sv orig previousProfit shieldRate fixedParam solved =
     sv * shieldRate"
| "spec_newCash LevelUp sv orig previousProfit shieldRate fixedParam solved = fixedParam"
| "spec_newCash PayYourself sv orig previousProfit shieldRate fixedParam solved = 0"
| "spec_newCash CapitalProtect sv orig previousProfit shieldRate fixedParam solved = 0"
| "spec_newCash TakeSalary sv orig previousProfit shieldRate fixedParam solved = 0"
| "spec_newCash Custom sv orig previousProfit shieldRate fixedParam solved =
     (if solved \<ge> 0 then solved else 0)"

fun spec_cashOut :: "ReinvestmentStrategy \<Rightarrow> real \<Rightarrow> real \<Rightarrow> real \<Rightarrow> real \<Rightarrow> real \<Rightarrow> real" where
  "spec_cashOut PayYourself sv orig r salaryParam solved = (sv * r) / 2"
| "spec_cashOut CapitalProtect sv orig r salaryParam solved =
     max 0 (sv - orig) + orig * r"
| "spec_cashOut TakeSalary sv orig r salaryParam solved = min salaryParam (sv * (1 + r))"
| "spec_cashOut Custom sv orig r salaryParam solved =
     (if solved < 0 then min \<bar>solved\<bar> (sv * (1 + r)) else 0)"
| "spec_cashOut s sv orig r salaryParam solved = 0"

fun spec_endValue :: "ReinvestmentStrategy \<Rightarrow> real \<Rightarrow> real \<Rightarrow> real \<Rightarrow> real \<Rightarrow> real \<Rightarrow> real \<Rightarrow> real" where
  "spec_endValue AllIn sv orig r cashIn withdrawn solved = sv * (1 + r)"
| "spec_endValue PayYourself sv orig r cashIn withdrawn solved = sv + (sv * r) / 2"
| "spec_endValue CapitalProtect sv orig r cashIn withdrawn solved = orig"
| "spec_endValue TakeSalary sv orig r cashIn withdrawn solved =
     max 0 (sv * (1 + r) - withdrawn)"
| "spec_endValue Custom sv orig r cashIn withdrawn solved =
     (if solved \<ge> 0 then (sv + cashIn) * (1 + r) else max 0 (sv * (1 + r) - withdrawn))"
| "spec_endValue s sv orig r cashIn withdrawn solved = (sv + cashIn) * (1 + r)"

text \<open>The whole point of a non-bootstrap period, with the derived fields of section 4.3.\<close>

definition spec_point ::
  "Config \<Rightarrow> real \<Rightarrow> int \<Rightarrow> real \<Rightarrow> real \<Rightarrow> ProjectionData" where
  "spec_point cfg solved i sv previousProfit =
     (let s = reinvestmentStrategy cfg;
          r = rate cfg;
          cashIn = spec_newCash s sv (investmentAmount cfg) previousProfit
                     (shieldInflation cfg) (levelUpAmount cfg) solved;
          withdrawn = spec_cashOut s sv (investmentAmount cfg) r (salaryAmount cfg) solved
      in \<lparr>period = i, startValue = sv, newCash = cashIn, totalInvested = sv + cashIn,
          profit = (if cashIn > 0 then (sv + cashIn) * r else sv * r),
          afterGrowth = (if cashIn > 0 then (sv + cashIn) * (1 + r) else sv * (1 + r)),
          cashOut = withdrawn,
          endValue = spec_endValue s sv (investmentAmount cfg) r cashIn withdrawn solved\<rparr>)"

text \<open>
  The lump-sum value of the specification (section 4.1), from its words:
  \<open>value(i) = principal \<times> (1 + annualRate \<times> (i/12)) \<times> inflationAdjustment(i)\<close> with
  \<open>inflationAdjustment(i) = 1 - inflationRate \<times> (i/12)\<close> when inflation is enabled, else \<open>1\<close>
  (both rates as fractions).
\<close>

definition spec_lumpSumValue :: "real \<Rightarrow> real \<Rightarrow> bool \<Rightarrow> real \<Rightarrow> int \<Rightarrow> real" where
  "spec_lumpSumValue principal' annualRate inflationEnabled inflRate i =
     principal' * (1 + annualRate * (of_int i / 12)) *
       (if inflationEnabled then 1 - inflRate * (of_int i / 12) else 1)"

text \<open>
  The forward compounding loop of the round-trip property: \<open>n\<close> periods of the update
  \<open>balance \<leftarrow> (balance + C) \<times> (1 + r)\<close>, which is what the level-up arm and the
  investing branch of the custom arm do with \<open>newCash = C\<close>.
\<close>

fun levelUpForward :: "real \<Rightarrow> real \<Rightarrow> nat \<Rightarrow> real \<Rightarrow> real" where
  "levelUpForward r C 0 b = b"
| "levelUpForward r C (Suc n) b = levelUpForward r C n ((b + C) * (1 + r))"

text \<open>The update of the withdrawing branch of the custom arm while its clamps are idle:
  grow first, then take \<open>\<bar>C\<bar>\<close> out (\<open>C < 0\<close>).\<close>

fun withdrawForward :: "real \<Rightarrow> real \<Rightarrow> nat \<Rightarrow> real \<Rightarrow> real" where
  "withdrawForward r C 0 b = b"
| "withdrawForward r C (Suc n) b = withdrawForward r C n (b * (1 + r) - \<bar>C\<bar>)"

subsection \<open>Inputs for which the computed quotients are finite\<close>

text \<open>
  \<open>deflator_finite\<close>: the recurring branch does not divide by a zero deflator.
  \<open>solver_finite\<close>: when the custom strategy is selected, the historical series is finite
  and the solver, if it reaches its last line, does not divide by a zero \<open>annuityFactor\<close>
  (\<open>(1 + r)^n = 1\<close> with \<open>r \<noteq> 0\<close> needs \<open>r = -2\<close> and an even \<open>n\<close>).
\<close>

definition deflator_finite :: "Config \<Rightarrow> bool" where
  "deflator_finite cfg \<longleftrightarrow>
     (frequency cfg \<noteq> Once \<and> enableInflation cfg \<longrightarrow> 1 + inflationPerPeriod cfg \<noteq> 0)"

definition solver_finite :: "Config \<Rightarrow> CalculationData \<Rightarrow> bool" where
  "solver_finite cfg fd \<longleftrightarrow>
     (reinvestmentStrategy cfg = Custom \<longrightarrow>
        deflator_finite cfg \<and>
        (0 < projectionDuration cfg \<and> 0 < currentValue fd \<and> rate cfg \<noteq> 0 \<longrightarrow>
           (1 + rate cfg) ^ nat (projectionDuration cfg) \<noteq> 1))"

subsection \<open>When a period moves cash\<close>

text \<open>
  \<open>cashMoves cfg fd k\<close>: the inputs under which the iteration at index \<open>k\<close> (period \<open>k + 1\<close>)
  has a cash flow to show, for a positive principal and a positive rate. The bootstrap always
  has (the principal goes in); all-in never has; 2x, repeat, double-down, pay-yourself and
  capital-protect always have; shield-value needs a positive inflation rate, level-up a
  non-zero amount, take-salary a non-zero salary and money left to take it from, custom a
  non-zero solver result and, when that is a withdrawal, money left. \<open>compounding\<close>: the
  strategies under which the balance stays positive.
\<close>

definition cashMoves :: "Config \<Rightarrow> CalculationData \<Rightarrow> nat \<Rightarrow> bool" where
  "cashMoves cfg fd k \<longleftrightarrow>
     k = 0 \<or>
     (case reinvestmentStrategy cfg of
        AllIn \<Rightarrow> False
      | ShieldValue \<Rightarrow> 0 < inflationRate cfg
      | LevelUp \<Rightarrow> levelUpAmount cfg \<noteq> 0
      | TakeSalary \<Rightarrow> salaryAmount cfg \<noteq> 0 \<and> 0 < fst (carried cfg fd k)
      | Custom \<Rightarrow>
          solver_finite cfg fd \<and> customPerPeriodAmount cfg fd \<noteq> 0 \<and>
          (customPerPeriodAmount cfg fd < 0 \<longrightarrow> 0 < fst (carried cfg fd k))
      | _ \<Rightarrow> True)"

definition compounding :: "Config \<Rightarrow> bool" where
  "compounding cfg \<longleftrightarrow>
     reinvestmentStrategy cfg \<in> {S2x, Repeat, AllIn, DoubleDown, PayYourself, CapitalProtect} \<or>
     reinvestmentStrategy cfg = ShieldValue \<and> 0 < inflationRate cfg"

subsection \<open>Predicates for the non-negativity invariant\<close>

text \<open>\<open>nonneg_inputs\<close>: the inputs under which no strategy can drive the balance below zero;
  \<open>carried_ok\<close>: the invariant of the loop's carried pair under these inputs.\<close>

definition nonneg_inputs :: "Config \<Rightarrow> bool" where
  "nonneg_inputs cfg \<longleftrightarrow>
     0 \<le> investmentAmount cfg \<and> - 100 \<le> roiPercentage cfg \<and> 0 \<le> levelUpAmount cfg \<and>
     - 100 \<le> inflationRate cfg \<and>
     (reinvestmentStrategy cfg = DoubleDown \<longrightarrow> 0 \<le> roiPercentage cfg)"

definition carried_ok :: "Config \<Rightarrow> real \<times> real \<Rightarrow> bool" where
  "carried_ok cfg st \<longleftrightarrow>
     0 \<le> fst st \<and> (reinvestmentStrategy cfg = DoubleDown \<longrightarrow> 0 \<le> snd st)"

subsection \<open>Sample inputs\<close>

text \<open>
  The default form with the contribution frequency switched to \<open>once\<close> (a lump sum of 1000
  at 10 percent for 12 months, whose series ends at 1100), projected yearly for three periods
  under a chosen strategy.
\<close>

definition sample :: "ReinvestmentStrategy \<Rightarrow> Config" where
  "sample s = defaults\<lparr>frequency := Once, projectionDuration := 3, reinvestmentStrategy := s\<rparr>"

definition sampleFinal :: CalculationData where
  "sampleFinal =
     \<lparr>CalculationData.period = 12, CalculationData.totalInvested = 1000, currentValue = 1100,
      CalculationData.profit = 100, displayValue = 1100\<rparr>"

section \<open>Properties\<close>

subsection \<open>Rounding\<close>

lemma Math_round_int: "x \<in> \<int> \<Longrightarrow> Math_round x = x"
  by (auto simp: Math_round_def elim!: Ints_cases)

lemma Math_round_diff_int:
  assumes "a \<in> \<int>"
  shows "Math_round (v - a) = Math_round v - Math_round a"
proof -
  from assms obtain z where z: "a = of_int z" by (auto elim: Ints_cases)
  have "\<lfloor>v - of_int z + 1 / 2\<rfloor> = \<lfloor>v + 1 / 2\<rfloor> - z"
    by (metis add_diff_eq diff_add_eq floor_diff_of_int)
  thus ?thesis using z by (simp add: Math_round_def)
qed

lemma Math_round_nonneg: "0 \<le> x \<Longrightarrow> 0 \<le> Math_round x"
  by (simp add: Math_round_def)

lemma Math_round_0: "Math_round 0 = 0"
  by (simp add: Math_round_def)

lemma Math_round_diff_near:
  "\<bar>Math_round (v - a) - (Math_round v - Math_round a)\<bar> \<le> 1"
proof -
  define p m n where "p = \<lfloor>v - a + 1 / 2\<rfloor>" and "m = \<lfloor>v + 1 / 2\<rfloor>" and "n = \<lfloor>a + 1 / 2\<rfloor>"
  have p: "of_int p \<le> v - a + 1 / 2" "v - a + 1 / 2 < of_int p + 1"
    and m: "of_int m \<le> v + 1 / 2" "v + 1 / 2 < of_int m + 1"
    and n: "of_int n \<le> a + 1 / 2" "a + 1 / 2 < of_int n + 1"
    unfolding p_def m_def n_def by linarith+
  have "real_of_int p < real_of_int (m - n + 2)" using p m n by simp
  then have up: "p \<le> m - n + 1" by linarith
  have "real_of_int (m - n - 2) < real_of_int p" using p m n by simp
  then have lo: "m - n - 1 \<le> p" by linarith
  have "\<bar>p - (m - n)\<bar> \<le> 1" using up lo by linarith
  then have "\<bar>real_of_int (p - (m - n))\<bar> \<le> 1" by linarith
  then show ?thesis by (simp add: Math_round_def p_def m_def n_def)
qed

lemma Math_round_eq_0_iff: "Math_round x = 0 \<longleftrightarrow> - 1 / 2 \<le> x \<and> x < 1 / 2"
proof -
  have "\<lfloor>x + 1 / 2\<rfloor> = 0 \<longleftrightarrow> 0 \<le> x + 1 / 2 \<and> x + 1 / 2 < 1"
    by (simp add: floor_eq_iff)
  then show ?thesis by (auto simp: Math_round_def)
qed

subsection \<open>What the loops emit\<close>

declare once_loop.simps [simp del]
declare recurring_loop.simps [simp del]
declare futureProjections_loop.simps [simp del]

lemma once_loop_eq:
  "once_loop cfg i data =
     data @ map (\<lambda>j. growthPoint cfg j (investmentAmount cfg) (periodValue cfg j))
              [i..duration cfg]"
proof (induction cfg i data rule: once_loop.induct)
  case (1 cfg i data)
  show ?case
  proof (cases "i \<le> duration cfg")
    case True
    then show ?thesis
      using 1 by (subst once_loop.simps) (simp add: upto_rec1[of i])
  next
    case False
    then show ?thesis by (subst once_loop.simps) simp
  qed
qed

lemma carried_Suc:
  "carried cfg fd (Suc k) = (endValue (unrounded cfg fd k), profit (unrounded cfg fd k))"
  by (simp add: unrounded_def)

lemma futureProjections_loop_eq:
  "futureProjections_loop cfg fd (int k + 1) (fst (carried cfg fd k)) (snd (carried cfg fd k)) acc =
     acc @ map (\<lambda>j. rounded (unrounded cfg fd j)) [k..<nat (projectionDuration cfg)]"
proof (induction "nat (projectionDuration cfg) - k" arbitrary: k acc)
  case 0
  then have "\<not> int k + 1 \<le> projectionDuration cfg" by linarith
  moreover have "[k..<nat (projectionDuration cfg)] = []" using 0 by simp
  ultimately show ?case by (subst futureProjections_loop.simps) simp
next
  case (Suc n)
  then have le: "int k + 1 \<le> projectionDuration cfg"
    and n: "n = nat (projectionDuration cfg) - Suc k"
    by linarith+
  have lt: "k < nat (projectionDuration cfg)" using le by linarith
  have "futureProjections_loop cfg fd (int (Suc k) + 1) (fst (carried cfg fd (Suc k)))
          (snd (carried cfg fd (Suc k))) (acc @ [rounded (unrounded cfg fd k)]) =
        (acc @ [rounded (unrounded cfg fd k)]) @
          map (\<lambda>j. rounded (unrounded cfg fd j)) [Suc k..<nat (projectionDuration cfg)]"
    using Suc.hyps(1)[OF n] .
  moreover have "futureProjections_loop cfg fd (int k + 1) (fst (carried cfg fd k))
       (snd (carried cfg fd k)) acc =
       futureProjections_loop cfg fd (int (Suc k) + 1) (fst (carried cfg fd (Suc k)))
          (snd (carried cfg fd (Suc k))) (acc @ [rounded (unrounded cfg fd k)])"
    using le by (subst futureProjections_loop.simps) (simp add: unrounded_def add.commute)
  ultimately show ?case using lt by (simp add: upt_conv_Cons)
qed

lemma futureProjections_eq:
  assumes "finalData cfg = Some fd"
  shows "futureProjections cfg =
           Some (map (\<lambda>j. rounded (unrounded cfg fd j)) [0..<nat (projectionDuration cfg)])"
  using assms futureProjections_loop_eq[of cfg fd 0 "[]"] by (simp add: futureProjections_def)

lemma futureProjections_nth:
  assumes "finalData cfg = Some fd" and "futureProjections cfg = Some ps"
  shows "length ps = nat (projectionDuration cfg)"
    and "k < length ps \<Longrightarrow> ps ! k = rounded (unrounded cfg fd k)"
  using assms futureProjections_eq[OF assms(1)] by auto

text \<open>Both series are always produced: the loops terminate, the historical series has
  \<open>duration + 1\<close> (lump sum) or \<open>totalPeriods + 1\<close> (recurring) points, and for a
  non-negative duration the projector returns \<open>projectionDuration\<close> points.\<close>

lemma recurring_loop_length:
  "length (recurring_loop cfg i invested val data) =
     length data + nat (totalPeriods cfg + 1 - i)"
proof (induction cfg i invested val data rule: recurring_loop.induct)
  case (1 cfg i invested val data)
  show ?case
  proof (cases "i \<le> totalPeriods cfg")
    case True
    then show ?thesis using 1 by (subst recurring_loop.simps) simp
  next
    case False
    then show ?thesis by (subst recurring_loop.simps) simp
  qed
qed

lemma totalPeriods_nonneg: "0 \<le> duration cfg \<Longrightarrow> 0 \<le> totalPeriods cfg"
  by (simp add: totalPeriods_def periodsPerYear_def)

lemma calculations_length:
  "length (calculations cfg) =
     (if frequency cfg = Once then nat (duration cfg + 1) else nat (totalPeriods cfg + 1))"
  by (simp add: calculations_def once_loop_eq recurring_loop_length)

lemma futureProjections_defined:
  assumes "0 \<le> duration cfg"
  shows "\<exists>fd ps. finalData cfg = Some fd \<and> futureProjections cfg = Some ps
           \<and> length ps = nat (projectionDuration cfg)"
proof -
  have "0 < length (calculations cfg)"
    using assms totalPeriods_nonneg[OF assms] by (simp add: calculations_length)
  then have "finalData cfg = Some (last (calculations cfg))" by (simp add: finalData_def)
  then show ?thesis using futureProjections_eq by fastforce
qed

lemma unrounded_Suc:
  "unrounded cfg fd (Suc k) =
     iteration cfg fd (int k + 2) (endValue (unrounded cfg fd k)) (profit (unrounded cfg fd k))"
  by (simp add: unrounded_def add.commute)

lemma unrounded_0:
  "unrounded cfg fd 0 =
     \<lparr>period = 1, startValue = 0, newCash = investmentAmount cfg,
      totalInvested = investmentAmount cfg, profit = investmentAmount cfg * rate cfg,
      afterGrowth = investmentAmount cfg + investmentAmount cfg * rate cfg, cashOut = 0,
      endValue = investmentAmount cfg + investmentAmount cfg * rate cfg\<rparr>"
  by (simp add: unrounded_def iteration_def Let_def)

lemma startValue_iteration: "i \<noteq> 1 \<Longrightarrow> startValue (iteration cfg fd i b pp) = b"
  by (simp add: iteration_def split: prod.splits)

lemma finalData_once:
  assumes "frequency cfg = Once" and "0 \<le> duration cfg"
  shows "finalData cfg =
           Some (growthPoint cfg (duration cfg) (investmentAmount cfg)
                   (periodValue cfg (duration cfg)))"
proof -
  have "calculations cfg =
          map (\<lambda>j. growthPoint cfg j (investmentAmount cfg) (periodValue cfg j))
            [0..duration cfg]"
    using assms(1) by (simp add: calculations_def once_loop_eq)
  moreover have "[0..duration cfg] \<noteq> []" using assms(2) by simp
  moreover have "last [0..duration cfg] = duration cfg"
    using assms(2) by (simp add: upto_rec2)
  ultimately show ?thesis
    by (simp add: finalData_def last_map)
qed

lemma sample_finalData: "finalData (sample s) = Some sampleFinal"
proof -
  have "finalData (sample s) =
          Some (growthPoint (sample s) 12 1000 (periodValue (sample s) 12))"
    using finalData_once[of "sample s"] by (simp add: sample_def defaults_def)
  also have "periodValue (sample s) 12 = 1100"
    by (simp add: periodValue_def periodRate_def periodInflation_def sample_def defaults_def)
  finally show ?thesis
    by (simp add: growthPoint_def Math_round_def sampleFinal_def sample_def defaults_def)
qed

lemma sample_projections:
  "futureProjections (sample s) =
     Some (futureProjections_loop (sample s) sampleFinal 1 1000 0 [])"
  by (simp add: futureProjections_def sample_finalData) (simp add: sample_def defaults_def)

lemma finalData_lump:
  assumes "frequency cfg = Once" and "duration cfg = 12" and "investmentAmount cfg = 1000"
    and "roiPercentage cfg = 10" and "\<not> enableInflation cfg" and "showTotal cfg"
  shows "finalData cfg = Some sampleFinal"
proof -
  have "finalData cfg = Some (growthPoint cfg 12 1000 (periodValue cfg 12))"
    using finalData_once[of cfg] assms(1,2,3) by simp
  also have "periodValue cfg 12 = 1100"
    using assms by (simp add: periodValue_def periodRate_def periodInflation_def)
  finally show ?thesis
    using assms(6) by (simp add: growthPoint_def Math_round_def sampleFinal_def)
qed

lemma futureProjections_unfold:
  "finalData cfg = Some fd \<Longrightarrow>
   futureProjections cfg = Some (futureProjections_loop cfg fd 1 (investmentAmount cfg) 0 [])"
  by (simp add: futureProjections_def)

subsection \<open>The strategy rules refine the specification's table\<close>

lemma applyStrategy_spec:
  "applyStrategy cfg fd sv pp =
     (newCash (spec_point cfg (customPerPeriodAmount cfg fd) i sv pp),
      cashOut (spec_point cfg (customPerPeriodAmount cfg fd) i sv pp),
      endValue (spec_point cfg (customPerPeriodAmount cfg fd) i sv pp))"
  by (cases "reinvestmentStrategy cfg") (simp_all add: applyStrategy_def spec_point_def Let_def)

lemma iteration_spec:
  "i \<noteq> 1 \<Longrightarrow> iteration cfg fd i sv pp = spec_point cfg (customPerPeriodAmount cfg fd) i sv pp"
  unfolding iteration_def
  by (simp add: applyStrategy_spec[of cfg fd sv pp i]) (simp add: spec_point_def Let_def)

text \<open>
  C1. From period 2 onward the loop applies the rule of the selected strategy to
  \<open>startValue\<close> = the unrounded \<open>endValue\<close> of the period before (and \<open>previousProfit\<close> = its
  unrounded profit): the unrounded values of period \<open>k + 2\<close> are exactly the point that the
  specification's table and derived-field rules describe, the solver being called on the
  final \<open>currentValue\<close> of the historical series, and the emitted point is its rounding.
  (When the custom strategy is selected the solver's result is assumed finite.)
\<close>

theorem C1_strategy_table:
  assumes "finalData cfg = Some fd" and "futureProjections cfg = Some ps"
    and "Suc k < length ps" and "solver_finite cfg fd"
  shows "unrounded cfg fd (Suc k) =
           spec_point cfg
             (calculatePerPeriodInvestment (currentValue fd) (customTargetAmount cfg)
                (projectionDuration cfg) (roiPercentage cfg / 100) (projectionFrequency cfg))
             (int k + 2) (endValue (unrounded cfg fd k)) (profit (unrounded cfg fd k))
       \<and> ps ! Suc k = rounded (unrounded cfg fd (Suc k))"
proof -
  have "unrounded cfg fd (Suc k) =
          iteration cfg fd (int k + 2) (endValue (unrounded cfg fd k)) (profit (unrounded cfg fd k))"
    by (rule unrounded_Suc)
  then show ?thesis
    using futureProjections_nth(2)[OF assms(1,2,3)]
    by (simp add: iteration_spec customPerPeriodAmount_def)
qed

theorem C1_strategy_table_witness:
  "finalData (sample Custom) = Some sampleFinal
   \<and> solver_finite (sample Custom) sampleFinal
   \<and> futureProjections (sample Custom) = Some
       [\<lparr>period = 1, startValue = 0, newCash = 1000, totalInvested = 1000, profit = 100,
          afterGrowth = 1100, cashOut = 0, endValue = 1100\<rparr>,
        \<lparr>period = 2, startValue = 1100, newCash = 14663, totalInvested = 15763,
          profit = 1576, afterGrowth = 17340, cashOut = 0, endValue = 17340\<rparr>,
        \<lparr>period = 3, startValue = 17340, newCash = 14663, totalInvested = 32003,
          profit = 3200, afterGrowth = 35203, cashOut = 0, endValue = 35203\<rparr>]
   \<and> unrounded (sample Custom) sampleFinal 1 =
       spec_point (sample Custom) (4853590 / 331) 2 1100 100"
proof -
  let ?ps = "[\<lparr>period = 1, startValue = 0, newCash = 1000, totalInvested = 1000, profit = 100,
          afterGrowth = 1100, cashOut = 0, endValue = 1100\<rparr>,
        \<lparr>period = 2, startValue = 1100, newCash = 14663, totalInvested = 15763,
          profit = 1576, afterGrowth = 17340, cashOut = 0, endValue = 17340\<rparr>,
        \<lparr>period = 3, startValue = 17340, newCash = 14663, totalInvested = 32003,
          profit = 3200, afterGrowth = 35203, cashOut = 0, endValue = 35203\<rparr>]"
  have h1: "finalData (sample Custom) = Some sampleFinal" by (rule sample_finalData)
  have h2: "futureProjections (sample Custom) = Some ?ps"
    unfolding sample_projections by code_simp
  have h3: "Suc 0 < length ?ps" by simp
  have solved: "calculatePerPeriodInvestment (currentValue sampleFinal)
        (customTargetAmount (sample Custom)) (projectionDuration (sample Custom))
        (roiPercentage (sample Custom) / 100) (projectionFrequency (sample Custom)) = 4853590 / 331"
    by code_simp
  have e0: "endValue (unrounded (sample Custom) sampleFinal 0) = 1100"
    and p0: "profit (unrounded (sample Custom) sampleFinal 0) = 100"
    by code_simp+
  have h4: "solver_finite (sample Custom) sampleFinal"
    by (simp add: solver_finite_def deflator_finite_def sample_def defaults_def rate_def
        perPeriodRate_def power3_eq_cube)
  from C1_strategy_table[OF h1 h2 h3 h4] show ?thesis
    using h1 h2 h4 by (simp add: solved e0 p0)
qed

subsection \<open>The carried balance\<close>

text \<open>
  C5. The running balance is carried unrounded: after period \<open>k + 1\<close> the loop's \<open>balance\<close>
  is the exact \<open>endValue\<close> computed in that period, and it is the \<open>startValue\<close> from which
  period \<open>k + 2\<close> is computed; the two emitted points are the roundings of the unrounded
  values, so \<open>Math.round\<close> touches the output only.
\<close>

theorem C5_balance_unrounded:
  assumes "finalData cfg = Some fd" and "futureProjections cfg = Some ps"
    and "Suc k < length ps"
  shows "fst (carried cfg fd (Suc k)) = endValue (unrounded cfg fd k)
       \<and> startValue (unrounded cfg fd (Suc k)) = endValue (unrounded cfg fd k)
       \<and> ps ! k = rounded (unrounded cfg fd k)
       \<and> ps ! Suc k = rounded (unrounded cfg fd (Suc k))"
proof -
  have "k < length ps" using assms(3) by simp
  then have "ps ! k = rounded (unrounded cfg fd k)"
    using futureProjections_nth(2)[OF assms(1,2)] by simp
  moreover have "ps ! Suc k = rounded (unrounded cfg fd (Suc k))"
    using futureProjections_nth(2)[OF assms(1,2,3)] .
  moreover have "startValue (unrounded cfg fd (Suc k)) = endValue (unrounded cfg fd k)"
    by (simp add: unrounded_Suc startValue_iteration)
  moreover have "fst (carried cfg fd (Suc k)) = endValue (unrounded cfg fd k)"
    by (simp only: carried_Suc fst_conv)
  ultimately show ?thesis by blast
qed

theorem C5_balance_unrounded_witness:
  "finalData (sample ShieldValue) = Some sampleFinal
   \<and> futureProjections (sample ShieldValue) = Some
       [\<lparr>period = 1, startValue = 0, newCash = 1000, totalInvested = 1000, profit = 100,
          afterGrowth = 1100, cashOut = 0, endValue = 1100\<rparr>,
        \<lparr>period = 2, startValue = 1100, newCash = 33, totalInvested = 1133, profit = 113,
          afterGrowth = 1246, cashOut = 0, endValue = 1246\<rparr>,
        \<lparr>period = 3, startValue = 1246, newCash = 37, totalInvested = 1284, profit = 128,
          afterGrowth = 1412, cashOut = 0, endValue = 1412\<rparr>]
   \<and> endValue (unrounded (sample ShieldValue) sampleFinal 1) = 12463 / 10
   \<and> fst (carried (sample ShieldValue) sampleFinal 2) = 12463 / 10
   \<and> startValue (unrounded (sample ShieldValue) sampleFinal 2) = 12463 / 10"
proof -
  let ?ps = "[\<lparr>period = 1, startValue = 0, newCash = 1000, totalInvested = 1000, profit = 100,
          afterGrowth = 1100, cashOut = 0, endValue = 1100\<rparr>,
        \<lparr>period = 2, startValue = 1100, newCash = 33, totalInvested = 1133, profit = 113,
          afterGrowth = 1246, cashOut = 0, endValue = 1246\<rparr>,
        \<lparr>period = 3, startValue = 1246, newCash = 37, totalInvested = 1284, profit = 128,
          afterGrowth = 1412, cashOut = 0, endValue = 1412\<rparr>]"
  have h1: "finalData (sample ShieldValue) = Some sampleFinal" by (rule sample_finalData)
  have h2: "futureProjections (sample ShieldValue) = Some ?ps"
    unfolding sample_projections by code_simp
  have h3: "Suc 1 < length ?ps" by simp
  have e1: "endValue (unrounded (sample ShieldValue) sampleFinal 1) = 12463 / 10"
    by code_simp
  from C5_balance_unrounded[OF h1 h2 h3] show ?thesis
    using h1 h2 e1 by (simp add: numeral_2_eq_2)
qed

subsection \<open>The bootstrap period\<close>

text \<open>
  C7. Period 1 does not depend on the strategy: any two configurations with the same
  starting balance and the same per-period rate (whatever their strategies and strategy
  parameters) emit the same first point, with \<open>startValue = 0\<close>, \<open>newCash\<close> = the starting
  balance, \<open>totalInvested = newCash\<close>, \<open>profit = totalInvested \<times> rate\<close>,
  \<open>endValue = totalInvested + profit\<close> and \<open>cashOut = 0\<close> (each stored rounded).
\<close>

theorem C7_bootstrap_strategy_independent:
  assumes "futureProjections cfg = Some ps" and "futureProjections cfg' = Some ps'"
    and "1 \<le> projectionDuration cfg" and "1 \<le> projectionDuration cfg'"
    and "investmentAmount cfg' = investmentAmount cfg" and "rate cfg' = rate cfg"
  shows "hd ps = rounded
           \<lparr>period = 1, startValue = 0, newCash = investmentAmount cfg,
            totalInvested = investmentAmount cfg, profit = investmentAmount cfg * rate cfg,
            afterGrowth = investmentAmount cfg + investmentAmount cfg * rate cfg, cashOut = 0,
            endValue = investmentAmount cfg + investmentAmount cfg * rate cfg\<rparr>
       \<and> hd ps' = hd ps"
proof -
  have first: "hd qs = rounded (unrounded c fd 0)"
    if "futureProjections c = Some qs" and "1 \<le> projectionDuration c" and "finalData c = Some fd"
    for c qs fd
  proof -
    have "0 < length qs" using futureProjections_nth(1)[OF that(3,1)] that(2) by simp
    then show ?thesis
      using futureProjections_nth(2)[OF that(3,1), of 0] by (simp add: hd_conv_nth)
  qed
  obtain fd where fd: "finalData cfg = Some fd"
    using assms(1) by (auto simp: futureProjections_def split: option.splits)
  obtain fd' where fd': "finalData cfg' = Some fd'"
    using assms(2) by (auto simp: futureProjections_def split: option.splits)
  show ?thesis
    using first[OF assms(1,3) fd] first[OF assms(2,4) fd'] assms(5,6)
    by (simp add: unrounded_0)
qed

theorem C7_bootstrap_strategy_independent_witness:
  "futureProjections (sample AllIn) = Some
       [\<lparr>period = 1, startValue = 0, newCash = 1000, totalInvested = 1000, profit = 100,
          afterGrowth = 1100, cashOut = 0, endValue = 1100\<rparr>,
        \<lparr>period = 2, startValue = 1100, newCash = 0, totalInvested = 1100, profit = 110,
          afterGrowth = 1210, cashOut = 0, endValue = 1210\<rparr>,
        \<lparr>period = 3, startValue = 1210, newCash = 0, totalInvested = 1210, profit = 121,
          afterGrowth = 1331, cashOut = 0, endValue = 1331\<rparr>]
   \<and> futureProjections (sample TakeSalary) = Some
       [\<lparr>period = 1, startValue = 0, newCash = 1000, totalInvested = 1000, profit = 100,
          afterGrowth = 1100, cashOut = 0, endValue = 1100\<rparr>,
        \<lparr>period = 2, startValue = 1100, newCash = 0, totalInvested = 1100, profit = 110,
          afterGrowth = 1210, cashOut = 100, endValue = 1110\<rparr>,
        \<lparr>period = 3, startValue = 1110, newCash = 0, totalInvested = 1110, profit = 111,
          afterGrowth = 1221, cashOut = 100, endValue = 1121\<rparr>]
   \<and> hd (the (futureProjections (sample TakeSalary))) = hd (the (futureProjections (sample AllIn)))"
proof -
  let ?ps = "[\<lparr>period = 1, startValue = 0, newCash = 1000, totalInvested = 1000, profit = 100,
          afterGrowth = 1100, cashOut = 0, endValue = 1100\<rparr>,
        \<lparr>period = 2, startValue = 1100, newCash = 0, totalInvested = 1100, profit = 110,
          afterGrowth = 1210, cashOut = 0, endValue = 1210\<rparr>,
        \<lparr>period = 3, startValue = 1210, newCash = 0, totalInvested = 1210, profit = 121,
          afterGrowth = 1331, cashOut = 0, endValue = 1331\<rparr>]"
  let ?ps' = "[\<lparr>period = 1, startValue = 0, newCash = 1000, totalInvested = 1000, profit = 100,
          afterGrowth = 1100, cashOut = 0, endValue = 1100\<rparr>,
        \<lparr>period = 2, startValue = 1100, newCash = 0, totalInvested = 1100, profit = 110,
          afterGrowth = 1210, cashOut = 100, endValue = 1110\<rparr>,
        \<lparr>period = 3, startValue = 1110, newCash = 0, totalInvested = 1110, profit = 111,
          afterGrowth = 1221, cashOut = 100, endValue = 1121\<rparr>]"
  have h1: "futureProjections (sample AllIn) = Some ?ps"
    unfolding sample_projections by code_simp
  have h2: "futureProjections (sample TakeSalary) = Some ?ps'"
    unfolding sample_projections by code_simp
  have h3: "1 \<le> projectionDuration (sample AllIn)"
    and h4: "1 \<le> projectionDuration (sample TakeSalary)"
    and h5: "investmentAmount (sample TakeSalary) = investmentAmount (sample AllIn)"
    and h6: "rate (sample TakeSalary) = rate (sample AllIn)"
    by (simp_all add: sample_def defaults_def rate_def)
  from C7_bootstrap_strategy_independent[OF h1 h2 h3 h4 h5 h6] show ?thesis
    using h1 h2 by simp
qed

subsection \<open>End values are not negative for non-negative inputs\<close>

lemma rate_ge: "- 100 \<le> roiPercentage cfg \<Longrightarrow> - 1 \<le> rate cfg"
  by (cases "projectionFrequency cfg") (simp_all add: rate_def perPeriodRate_def)

lemma rate_nonneg: "0 \<le> roiPercentage cfg \<Longrightarrow> 0 \<le> rate cfg"
  by (cases "projectionFrequency cfg") (simp_all add: rate_def perPeriodRate_def)

lemma shieldInflation_ge: "- 100 \<le> inflationRate cfg \<Longrightarrow> - 1 \<le> shieldInflation cfg"
  by (cases "projectionFrequency cfg") (simp_all add: shieldInflation_def perPeriodRate_def)

lemma grow_nonneg: "0 \<le> x \<Longrightarrow> - 1 \<le> r \<Longrightarrow> 0 \<le> x * (1 + r)" for x r :: real
  by (simp add: mult_nonneg_nonneg)

lemma applyStrategy_nonneg:
  assumes "nonneg_inputs cfg" and "0 \<le> b"
    and "reinvestmentStrategy cfg = DoubleDown \<longrightarrow> 0 \<le> pp"
    and "applyStrategy cfg fd b pp = (cashIn, withdrawn, endVal)"
  shows "0 \<le> endVal \<and> (reinvestmentStrategy cfg = DoubleDown \<longrightarrow> 0 \<le> cashIn)"
proof -
  have r: "- 1 \<le> rate cfg" and s: "- 1 \<le> shieldInflation cfg"
    and P: "0 \<le> investmentAmount cfg" and L: "0 \<le> levelUpAmount cfg"
    using assms(1) by (simp_all add: nonneg_inputs_def rate_ge shieldInflation_ge)
  show ?thesis
  proof (cases "reinvestmentStrategy cfg")
    case S2x
    then show ?thesis using assms(2,4) r by (auto simp: applyStrategy_def intro!: grow_nonneg)
  next
    case Repeat
    then show ?thesis using assms(2,4) r P by (auto simp: applyStrategy_def intro!: grow_nonneg)
  next
    case AllIn
    then show ?thesis using assms(2,4) r by (auto simp: applyStrategy_def intro!: grow_nonneg)
  next
    case DoubleDown
    then show ?thesis using assms(2,3,4) r by (auto simp: applyStrategy_def intro!: grow_nonneg)
  next
    case ShieldValue
    have "0 \<le> b * (1 + shieldInflation cfg)" using assms(2) s by (rule grow_nonneg)
    then have "0 \<le> b + b * shieldInflation cfg" by (simp add: distrib_left)
    then have "0 \<le> (b + b * shieldInflation cfg) * (1 + rate cfg)"
      using r by (rule grow_nonneg)
    then show ?thesis using ShieldValue assms(4) by (auto simp: applyStrategy_def)
  next
    case LevelUp
    then show ?thesis using assms(2,4) r L by (auto simp: applyStrategy_def intro!: grow_nonneg)
  next
    case PayYourself
    have "0 \<le> b * (1 + rate cfg / 2)" using assms(2) r by (simp add: mult_nonneg_nonneg)
    then have "0 \<le> b + b * rate cfg / 2" by (simp add: distrib_left)
    then show ?thesis using PayYourself assms(4) by (auto simp: applyStrategy_def Let_def)
  next
    case CapitalProtect
    then show ?thesis using assms(4) P by (auto simp: applyStrategy_def Let_def)
  next
    case TakeSalary
    then show ?thesis using assms(4) by (auto simp: applyStrategy_def Let_def)
  next
    case Custom
    then show ?thesis using assms(2,4) r
      by (auto simp: applyStrategy_def Let_def split: if_splits intro!: grow_nonneg)
  qed
qed

lemma iteration_nonneg:
  assumes "nonneg_inputs cfg" and "carried_ok cfg (b, pp)"
  shows "0 \<le> endValue (iteration cfg fd i b pp)
       \<and> carried_ok cfg (endValue (iteration cfg fd i b pp), profit (iteration cfg fd i b pp))"
proof (cases "i = 1")
  case True
  have b: "0 \<le> b" using assms(2) by (simp add: carried_ok_def)
  have "0 \<le> b * (1 + rate cfg)"
    using b assms(1) by (intro grow_nonneg rate_ge) (simp_all add: nonneg_inputs_def)
  then have e: "0 \<le> b + b * rate cfg" by (simp add: distrib_left)
  have "reinvestmentStrategy cfg = DoubleDown \<longrightarrow> 0 \<le> b * rate cfg"
    using b assms(1) by (auto simp: nonneg_inputs_def intro!: mult_nonneg_nonneg rate_nonneg)
  then show ?thesis using True e by (simp add: iteration_def carried_ok_def Let_def)
next
  case False
  obtain cashIn withdrawn endVal where a: "applyStrategy cfg fd b pp = (cashIn, withdrawn, endVal)"
    by (cases "applyStrategy cfg fd b pp") auto
  have b: "0 \<le> b" and pp: "reinvestmentStrategy cfg = DoubleDown \<longrightarrow> 0 \<le> pp"
    using assms(2) by (simp_all add: carried_ok_def)
  from applyStrategy_nonneg[OF assms(1) b pp a]
  have e: "0 \<le> endVal" and c: "reinvestmentStrategy cfg = DoubleDown \<longrightarrow> 0 \<le> cashIn" by simp_all
  have "reinvestmentStrategy cfg = DoubleDown \<longrightarrow>
          0 \<le> (if cashIn > 0 then (b + cashIn) * rate cfg else b * rate cfg)"
    using b c assms(1) by (auto simp: nonneg_inputs_def intro!: mult_nonneg_nonneg rate_nonneg)
  then show ?thesis using False a e by (simp add: iteration_def carried_ok_def)
qed

lemma carried_ok_all: "nonneg_inputs cfg \<Longrightarrow> carried_ok cfg (carried cfg fd k)"
proof (induction k)
  case 0
  then show ?case by (simp add: carried_ok_def nonneg_inputs_def)
next
  case (Suc k)
  then have "carried_ok cfg (fst (carried cfg fd k), snd (carried cfg fd k))" by simp
  from iteration_nonneg[OF Suc.prems this] show ?case by simp
qed

lemma unrounded_endValue_nonneg:
  assumes "nonneg_inputs cfg"
  shows "0 \<le> endValue (unrounded cfg fd k)"
proof -
  have "carried_ok cfg (fst (carried cfg fd k), snd (carried cfg fd k))"
    using carried_ok_all[OF assms] by simp
  from iteration_nonneg[OF assms this] show ?thesis by (simp add: unrounded_def)
qed

lemma nonneg_inputs_finite:
  assumes "nonneg_inputs cfg"
  shows "deflator_finite cfg \<and> solver_finite cfg fd"
proof -
  have i: "- 100 \<le> inflationRate cfg" using assms by (simp add: nonneg_inputs_def)
  have "0 < 1 + inflationRate cfg / 100 / periodsPerYear cfg"
    using i by (cases "frequency cfg") (simp_all add: periodsPerYear_def)
  then have d: "deflator_finite cfg"
    by (simp add: deflator_finite_def inflationPerPeriod_def)
  have "(1 + rate cfg) ^ nat (projectionDuration cfg) \<noteq> 1"
    if "0 < projectionDuration cfg" and "rate cfg \<noteq> 0"
  proof
    assume "(1 + rate cfg) ^ nat (projectionDuration cfg) = 1"
    then have e: "(1 + rate cfg) ^ nat (projectionDuration cfg) = 1 ^ nat (projectionDuration cfg)"
      by simp
    have r: "0 \<le> 1 + rate cfg" using rate_ge[of cfg] assms by (simp add: nonneg_inputs_def)
    have n: "0 < nat (projectionDuration cfg)" using that(1) by simp
    have "1 + rate cfg = 1"
      by (rule power_eq_imp_eq_base[OF e r _ n]) simp
    then show False using that(2) by simp
  qed
  then show ?thesis using d by (simp add: solver_finite_def)
qed

text \<open>
  C4, as the code has it. The clamps sit in the withdrawing arms only (take-salary and the
  withdrawing branch of custom); the contributing arms add whatever \<open>newCash\<close> they are given.
  So \<open>endValue \<ge> 0\<close> holds in every period, unrounded and as stored, provided the principal
  and the level-up amount are not negative, the ROI and the inflation rate are at least
  \<open>-100\<close> percent, and the ROI is not negative under double-down; the salary and the custom
  target are arbitrary. Under these inputs no divisor is zero (lemma
  \<open>nonneg_inputs_finite\<close>).
\<close>

theorem C4_endValue_nonneg:
  assumes "finalData cfg = Some fd" and "futureProjections cfg = Some ps"
    and "0 \<le> investmentAmount cfg" and "- 100 \<le> roiPercentage cfg"
    and "0 \<le> levelUpAmount cfg" and "- 100 \<le> inflationRate cfg"
    and "reinvestmentStrategy cfg = DoubleDown \<longrightarrow> 0 \<le> roiPercentage cfg"
    and "k < length ps"
  shows "0 \<le> endValue (unrounded cfg fd k) \<and> 0 \<le> endValue (ps ! k)"
proof -
  have n: "nonneg_inputs cfg" using assms(3-7) by (simp add: nonneg_inputs_def)
  have "0 \<le> endValue (unrounded cfg fd k)" by (rule unrounded_endValue_nonneg[OF n])
  moreover have "ps ! k = rounded (unrounded cfg fd k)"
    by (rule futureProjections_nth(2)[OF assms(1,2,8)])
  ultimately show ?thesis by (simp add: rounded_def Math_round_nonneg)
qed

theorem C4_endValue_nonneg_witness:
  "finalData (sample DoubleDown) = Some sampleFinal
   \<and> futureProjections (sample DoubleDown) = Some
       [\<lparr>period = 1, startValue = 0, newCash = 1000, totalInvested = 1000, profit = 100,
          afterGrowth = 1100, cashOut = 0, endValue = 1100\<rparr>,
        \<lparr>period = 2, startValue = 1100, newCash = 100, totalInvested = 1200, profit = 120,
          afterGrowth = 1320, cashOut = 0, endValue = 1320\<rparr>,
        \<lparr>period = 3, startValue = 1320, newCash = 120, totalInvested = 1440, profit = 144,
          afterGrowth = 1584, cashOut = 0, endValue = 1584\<rparr>]
   \<and> 0 \<le> endValue (unrounded (sample DoubleDown) sampleFinal 2)
   \<and> 0 \<le> endValue (the (futureProjections (sample DoubleDown)) ! 2)"
proof -
  let ?ps = "[\<lparr>period = 1, startValue = 0, newCash = 1000, totalInvested = 1000, profit = 100,
          afterGrowth = 1100, cashOut = 0, endValue = 1100\<rparr>,
        \<lparr>period = 2, startValue = 1100, newCash = 100, totalInvested = 1200, profit = 120,
          afterGrowth = 1320, cashOut = 0, endValue = 1320\<rparr>,
        \<lparr>period = 3, startValue = 1320, newCash = 120, totalInvested = 1440, profit = 144,
          afterGrowth = 1584, cashOut = 0, endValue = 1584\<rparr>]"
  have h1: "finalData (sample DoubleDown) = Some sampleFinal" by (rule sample_finalData)
  have h2: "futureProjections (sample DoubleDown) = Some ?ps"
    unfolding sample_projections by code_simp
  have h3: "0 \<le> investmentAmount (sample DoubleDown)"
    and h4: "- 100 \<le> roiPercentage (sample DoubleDown)"
    and h5: "0 \<le> levelUpAmount (sample DoubleDown)"
    and h6: "- 100 \<le> inflationRate (sample DoubleDown)"
    and h7: "reinvestmentStrategy (sample DoubleDown) = DoubleDown \<longrightarrow>
             0 \<le> roiPercentage (sample DoubleDown)"
    by (simp_all add: sample_def defaults_def)
  have h8: "2 < length ?ps" by simp
  from C4_endValue_nonneg[OF h1 h2 h3 h4 h5 h6 h7 h8] show ?thesis
    using h1 h2 by simp
qed

text \<open>C4 as stated (every strategy parameter value) fails: a negative level-up amount
  on the default lump sum ends period 2 at \<open>-4290\<close>.\<close>

theorem C4_negative_endValue:
  "futureProjections ((sample LevelUp)\<lparr>levelUpAmount := - 5000\<rparr>) = Some
       [\<lparr>period = 1, startValue = 0, newCash = 1000, totalInvested = 1000, profit = 100,
          afterGrowth = 1100, cashOut = 0, endValue = 1100\<rparr>,
        \<lparr>period = 2, startValue = 1100, newCash = - 5000, totalInvested = - 3900,
          profit = 110, afterGrowth = 1210, cashOut = 0, endValue = - 4290\<rparr>,
        \<lparr>period = 3, startValue = - 4290, newCash = - 5000, totalInvested = - 9290,
          profit = - 429, afterGrowth = - 4719, cashOut = 0, endValue = - 10219\<rparr>]
   \<and> \<not> 0 \<le> endValue (the (futureProjections ((sample LevelUp)\<lparr>levelUpAmount := - 5000\<rparr>)) ! 1)"
proof -
  have fd: "finalData ((sample LevelUp)\<lparr>levelUpAmount := - 5000\<rparr>) = Some sampleFinal"
    by (rule finalData_lump) (simp_all add: sample_def defaults_def)
  have "futureProjections ((sample LevelUp)\<lparr>levelUpAmount := - 5000\<rparr>) = Some
       [\<lparr>period = 1, startValue = 0, newCash = 1000, totalInvested = 1000, profit = 100,
          afterGrowth = 1100, cashOut = 0, endValue = 1100\<rparr>,
        \<lparr>period = 2, startValue = 1100, newCash = - 5000, totalInvested = - 3900,
          profit = 110, afterGrowth = 1210, cashOut = 0, endValue = - 4290\<rparr>,
        \<lparr>period = 3, startValue = - 4290, newCash = - 5000, totalInvested = - 9290,
          profit = - 429, afterGrowth = - 4719, cashOut = 0, endValue = - 10219\<rparr>]"
    unfolding futureProjections_unfold[OF fd] by code_simp
  then show ?thesis by simp
qed

subsection \<open>Cash in and cash out never occur together\<close>

lemma newCash_or_cashOut_applyStrategy:
  "applyStrategy cfg fd b pp = (cashIn, withdrawn, endVal) \<Longrightarrow> cashIn = 0 \<or> withdrawn = 0"
  by (cases "reinvestmentStrategy cfg") (auto simp: applyStrategy_def Let_def split: if_splits)

lemma newCash_or_cashOut_iteration:
  "newCash (iteration cfg fd i b pp) = 0 \<or> cashOut (iteration cfg fd i b pp) = 0"
proof (cases "i = 1")
  case True
  then show ?thesis by (simp add: iteration_def Let_def)
next
  case False
  obtain cashIn withdrawn endVal where a: "applyStrategy cfg fd b pp = (cashIn, withdrawn, endVal)"
    by (cases "applyStrategy cfg fd b pp") auto
  from newCash_or_cashOut_applyStrategy[OF a] show ?thesis
    using False a by (simp add: iteration_def)
qed

lemma allIn_iteration:
  "reinvestmentStrategy cfg = AllIn \<Longrightarrow> i \<noteq> 1 \<Longrightarrow>
   newCash (iteration cfg fd i b pp) = 0 \<and> cashOut (iteration cfg fd i b pp) = 0"
  by (simp add: iteration_def applyStrategy_def)

lemma shieldInflation_pos: "0 < inflationRate cfg \<Longrightarrow> 0 < shieldInflation cfg"
  by (cases "projectionFrequency cfg") (simp_all add: shieldInflation_def perPeriodRate_def)

lemma grow_pos: "0 < x \<Longrightarrow> 0 < r \<Longrightarrow> 0 < x * (1 + r)" for x r :: real
  by (simp add: mult_pos_pos)

lemma applyStrategy_pos:
  assumes "0 < investmentAmount cfg" and "0 < rate cfg" and "compounding cfg"
    and "0 < b" and "0 < pp"
    and "applyStrategy cfg fd b pp = (cashIn, withdrawn, endVal)"
  shows "0 < endVal \<and> 0 \<le> cashIn"
proof -
  note r = assms(2) and P = assms(1) and b = assms(4) and pp = assms(5)
  consider (a) "reinvestmentStrategy cfg = S2x" | (b) "reinvestmentStrategy cfg = Repeat"
    | (c) "reinvestmentStrategy cfg = AllIn" | (d) "reinvestmentStrategy cfg = DoubleDown"
    | (e) "reinvestmentStrategy cfg = PayYourself" | (f) "reinvestmentStrategy cfg = CapitalProtect"
    | (g) "reinvestmentStrategy cfg = ShieldValue" "0 < inflationRate cfg"
    using assms(3) by (auto simp: compounding_def)
  then show ?thesis
  proof cases
    case a
    then show ?thesis using assms(6) b r by (auto simp: applyStrategy_def intro!: grow_pos)
  next
    case b
    then show ?thesis using assms(6) assms(4) r P by (auto simp: applyStrategy_def intro!: grow_pos)
  next
    case c
    then show ?thesis using assms(6) assms(4) r by (auto simp: applyStrategy_def intro!: grow_pos)
  next
    case d
    then show ?thesis using assms(6) assms(4) r pp by (auto simp: applyStrategy_def intro!: grow_pos)
  next
    case e
    have "0 < b * rate cfg" using assms(4) r by (rule mult_pos_pos)
    then have "0 < b + b * rate cfg / 2" using assms(4) by simp
    then show ?thesis using e assms(6) by (auto simp: applyStrategy_def Let_def)
  next
    case f
    then show ?thesis using assms(6) P by (auto simp: applyStrategy_def Let_def)
  next
    case g
    have s: "0 < b * shieldInflation cfg"
      using assms(4) shieldInflation_pos[OF g(2)] by (rule mult_pos_pos)
    then have "0 < b + b * shieldInflation cfg" using assms(4) by simp
    then have "0 < (b + b * shieldInflation cfg) * (1 + rate cfg)" using r by (rule grow_pos)
    then show ?thesis using g(1) assms(6) s by (auto simp: applyStrategy_def)
  qed
qed

lemma iteration_pos:
  assumes "0 < investmentAmount cfg" and "0 < rate cfg" and "compounding cfg"
    and "0 < b" and "i \<noteq> 1 \<longrightarrow> 0 < pp"
  shows "0 < endValue (iteration cfg fd i b pp) \<and> 0 < profit (iteration cfg fd i b pp)"
proof (cases "i = 1")
  case True
  have "0 < b * rate cfg" using assms(4,2) by (rule mult_pos_pos)
  then show ?thesis using True assms(4) by (simp add: iteration_def Let_def)
next
  case False
  obtain cashIn withdrawn endVal where a: "applyStrategy cfg fd b pp = (cashIn, withdrawn, endVal)"
    by (cases "applyStrategy cfg fd b pp") auto
  have pp: "0 < pp" using False assms(5) by simp
  from applyStrategy_pos[OF assms(1,2,3,4) pp a] have e: "0 < endVal" and c: "0 \<le> cashIn"
    by simp_all
  have "0 < b * rate cfg" using assms(4,2) by (rule mult_pos_pos)
  moreover have "0 < (b + cashIn) * rate cfg" using assms(4,2) c by (simp add: mult_pos_pos)
  ultimately show ?thesis using False a e by (simp add: iteration_def)
qed

lemma carried_pos:
  assumes "0 < investmentAmount cfg" and "0 < rate cfg" and "compounding cfg"
  shows "0 < fst (carried cfg fd k) \<and> (k \<noteq> 0 \<longrightarrow> 0 < snd (carried cfg fd k))"
proof (induction k)
  case 0
  then show ?case using assms(1) by simp
next
  case (Suc k)
  then have b: "0 < fst (carried cfg fd k)"
    and pp: "int k + 1 \<noteq> 1 \<longrightarrow> 0 < snd (carried cfg fd k)"
    by simp_all
  from iteration_pos[OF assms b pp] show ?case by simp
qed

lemma min_nonzero: "0 < g \<Longrightarrow> s \<noteq> 0 \<Longrightarrow> min s g \<noteq> 0" for s g :: real
  by (auto simp: min_def)

lemma exactly_one_later:
  assumes "0 < investmentAmount cfg" and "0 < rate cfg" and "k \<noteq> 0" and "cashMoves cfg fd k"
  shows "(newCash (unrounded cfg fd k) = 0) \<noteq> (cashOut (unrounded cfg fd k) = 0)"
proof -
  let ?b = "fst (carried cfg fd k)" and ?pp = "snd (carried cfg fd k)"
  have i: "int k + 1 \<noteq> 1" using assms(3) by simp
  have r1: "0 < 1 + rate cfg" using assms(2) by simp
  have pos: "0 < ?b \<and> 0 < ?pp" if "compounding cfg"
    using carried_pos[OF assms(1,2) that, of fd k] assms(3) by simp
  show ?thesis
  proof (cases "reinvestmentStrategy cfg")
    case S2x
    then have "0 < ?b" using pos by (simp add: compounding_def)
    then show ?thesis using S2x i by (simp add: unrounded_def iteration_def applyStrategy_def)
  next
    case Repeat
    then show ?thesis using assms(1) i by (simp add: unrounded_def iteration_def applyStrategy_def)
  next
    case AllIn
    then show ?thesis using assms(3,4) by (simp add: cashMoves_def)
  next
    case DoubleDown
    then have "0 < ?pp" using pos by (simp add: compounding_def)
    then show ?thesis using DoubleDown i by (simp add: unrounded_def iteration_def applyStrategy_def)
  next
    case ShieldValue
    then have inf: "0 < inflationRate cfg" using assms(3,4) by (simp add: cashMoves_def)
    then have "0 < ?b" using pos ShieldValue by (simp add: compounding_def)
    then have "?b \<noteq> 0" and "shieldInflation cfg \<noteq> 0"
      using shieldInflation_pos[OF inf] by simp_all
    then show ?thesis using ShieldValue i by (simp add: unrounded_def iteration_def applyStrategy_def)
  next
    case LevelUp
    then have "levelUpAmount cfg \<noteq> 0" using assms(3,4) by (simp add: cashMoves_def)
    then show ?thesis using LevelUp i by (simp add: unrounded_def iteration_def applyStrategy_def)
  next
    case PayYourself
    then have "0 < ?b" using pos by (simp add: compounding_def)
    then have "?b \<noteq> 0" and "rate cfg \<noteq> 0" using assms(2) by simp_all
    then show ?thesis
      using PayYourself i by (simp add: unrounded_def iteration_def applyStrategy_def Let_def)
  next
    case CapitalProtect
    have "0 < investmentAmount cfg * rate cfg" using assms(1,2) by (rule mult_pos_pos)
    then have "0 < max 0 (?b - investmentAmount cfg) + investmentAmount cfg * rate cfg" by simp
    then show ?thesis
      using CapitalProtect i by (simp add: unrounded_def iteration_def applyStrategy_def Let_def)
  next
    case TakeSalary
    then have s: "salaryAmount cfg \<noteq> 0" and b: "0 < ?b"
      using assms(3,4) by (simp_all add: cashMoves_def)
    have "0 < ?b * (1 + rate cfg)" using b r1 by (rule mult_pos_pos)
    then have "min (salaryAmount cfg) (?b * (1 + rate cfg)) \<noteq> 0" using s by (rule min_nonzero)
    then show ?thesis
      using TakeSalary i by (simp add: unrounded_def iteration_def applyStrategy_def Let_def)
  next
    case Custom
    then have a: "customPerPeriodAmount cfg fd \<noteq> 0"
      and b: "customPerPeriodAmount cfg fd < 0 \<longrightarrow> 0 < ?b"
      using assms(3,4) by (simp_all add: cashMoves_def)
    show ?thesis
    proof (cases "0 \<le> customPerPeriodAmount cfg fd")
      case True
      then show ?thesis
        using Custom i a by (simp add: unrounded_def iteration_def applyStrategy_def Let_def)
    next
      case False
      then have "0 < ?b" using b by simp
      then have "0 < ?b * (1 + rate cfg)" using r1 by (rule mult_pos_pos)
      moreover have "\<bar>customPerPeriodAmount cfg fd\<bar> \<noteq> 0" using a by simp
      ultimately have "min \<bar>customPerPeriodAmount cfg fd\<bar> (?b * (1 + rate cfg)) \<noteq> 0"
        by (rule min_nonzero)
      then show ?thesis
        using Custom i False
        by (simp add: unrounded_def iteration_def applyStrategy_def Let_def)
    qed
  qed
qed

lemma exactly_one_unrounded:
  assumes "0 < investmentAmount cfg" and "0 < rate cfg" and "cashMoves cfg fd k"
  shows "(newCash (unrounded cfg fd k) = 0) \<noteq> (cashOut (unrounded cfg fd k) = 0)"
proof (cases "k = 0")
  case True
  then show ?thesis using assms(1) by (simp add: unrounded_0)
next
  case False
  then show ?thesis by (rule exactly_one_later[OF assms(1,2) _ assms(3)])
qed

text \<open>
  C8, as the code has it. In every period at most one of \<open>newCash\<close> and \<open>cashOut\<close> is
  non-zero, unrounded and as stored, and under all-in both are zero from period 2 on. For a
  positive principal and a positive rate, exactly one of the two unrounded flows is non-zero
  in period 1 under every strategy (the principal goes in) and in every later period that
  moves cash (\<open>cashMoves\<close>): always under 2x, repeat, double-down, pay-yourself and
  capital-protect, and under shield-value, level-up, take-salary and custom unless their
  parameter is zero or, for a withdrawal, the balance is empty. A stored flow is the
  \<open>Math.round\<close> of the unrounded one, so it is \<open>0\<close> exactly when that lies in
  \<open>[-0.5, 0.5)\<close>.
\<close>

theorem C8_cash_flows:
  assumes "finalData cfg = Some fd" and "futureProjections cfg = Some ps" and "k < length ps"
  shows "(newCash (unrounded cfg fd k) = 0 \<or> cashOut (unrounded cfg fd k) = 0)
       \<and> (newCash (ps ! k) = 0 \<or> cashOut (ps ! k) = 0)
       \<and> (reinvestmentStrategy cfg = AllIn \<and> 1 \<le> k \<longrightarrow>
            newCash (unrounded cfg fd k) = 0 \<and> cashOut (unrounded cfg fd k) = 0
            \<and> newCash (ps ! k) = 0 \<and> cashOut (ps ! k) = 0)
       \<and> (0 < investmentAmount cfg \<and> 0 < rate cfg \<and> cashMoves cfg fd k \<longrightarrow>
            (newCash (unrounded cfg fd k) = 0) \<noteq> (cashOut (unrounded cfg fd k) = 0))
       \<and> (newCash (ps ! k) = 0 \<longleftrightarrow>
            - 1 / 2 \<le> newCash (unrounded cfg fd k) \<and> newCash (unrounded cfg fd k) < 1 / 2)
       \<and> (cashOut (ps ! k) = 0 \<longleftrightarrow>
            - 1 / 2 \<le> cashOut (unrounded cfg fd k) \<and> cashOut (unrounded cfg fd k) < 1 / 2)"
proof -
  have nth: "ps ! k = rounded (unrounded cfg fd k)"
    by (rule futureProjections_nth(2)[OF assms])
  have one: "newCash (unrounded cfg fd k) = 0 \<or> cashOut (unrounded cfg fd k) = 0"
    unfolding unrounded_def by (rule newCash_or_cashOut_iteration)
  have allin: "newCash (unrounded cfg fd k) = 0 \<and> cashOut (unrounded cfg fd k) = 0"
    if "reinvestmentStrategy cfg = AllIn" and "1 \<le> k"
    unfolding unrounded_def using that by (intro allIn_iteration) simp_all
  have xor: "(newCash (unrounded cfg fd k) = 0) \<noteq> (cashOut (unrounded cfg fd k) = 0)"
    if "0 < investmentAmount cfg" and "0 < rate cfg" and "cashMoves cfg fd k"
    using that by (rule exactly_one_unrounded)
  have stored: "newCash (ps ! k) = Math_round (newCash (unrounded cfg fd k))"
    "cashOut (ps ! k) = Math_round (cashOut (unrounded cfg fd k))"
    using nth by (simp_all add: rounded_def)
  have a: "newCash (ps ! k) = 0 \<or> cashOut (ps ! k) = 0"
    using one stored by (auto simp: Math_round_0)
  have b: "reinvestmentStrategy cfg = AllIn \<and> 1 \<le> k \<longrightarrow>
            newCash (unrounded cfg fd k) = 0 \<and> cashOut (unrounded cfg fd k) = 0
            \<and> newCash (ps ! k) = 0 \<and> cashOut (ps ! k) = 0"
    using allin stored by (auto simp: Math_round_0)
  have c: "newCash (ps ! k) = 0 \<longleftrightarrow>
            - 1 / 2 \<le> newCash (unrounded cfg fd k) \<and> newCash (unrounded cfg fd k) < 1 / 2"
    "cashOut (ps ! k) = 0 \<longleftrightarrow>
            - 1 / 2 \<le> cashOut (unrounded cfg fd k) \<and> cashOut (unrounded cfg fd k) < 1 / 2"
    unfolding stored by (rule Math_round_eq_0_iff)+
  show ?thesis using one a b xor c by blast
qed

theorem C8_cash_flows_witness:
  "futureProjections (sample TakeSalary) = Some
       [\<lparr>period = 1, startValue = 0, newCash = 1000, totalInvested = 1000, profit = 100,
          afterGrowth = 1100, cashOut = 0, endValue = 1100\<rparr>,
        \<lparr>period = 2, startValue = 1100, newCash = 0, totalInvested = 1100, profit = 110,
          afterGrowth = 1210, cashOut = 100, endValue = 1110\<rparr>,
        \<lparr>period = 3, startValue = 1110, newCash = 0, totalInvested = 1110, profit = 111,
          afterGrowth = 1221, cashOut = 100, endValue = 1121\<rparr>]
   \<and> 0 < investmentAmount (sample TakeSalary) \<and> 0 < rate (sample TakeSalary)
   \<and> cashMoves (sample TakeSalary) sampleFinal 1
   \<and> (newCash (unrounded (sample TakeSalary) sampleFinal 1) = 0) \<noteq>
       (cashOut (unrounded (sample TakeSalary) sampleFinal 1) = 0)
   \<and> cashOut (unrounded (sample TakeSalary) sampleFinal 1) = 100
   \<and> futureProjections (sample AllIn) = Some
       [\<lparr>period = 1, startValue = 0, newCash = 1000, totalInvested = 1000, profit = 100,
          afterGrowth = 1100, cashOut = 0, endValue = 1100\<rparr>,
        \<lparr>period = 2, startValue = 1100, newCash = 0, totalInvested = 1100, profit = 110,
          afterGrowth = 1210, cashOut = 0, endValue = 1210\<rparr>,
        \<lparr>period = 3, startValue = 1210, newCash = 0, totalInvested = 1210, profit = 121,
          afterGrowth = 1331, cashOut = 0, endValue = 1331\<rparr>]
   \<and> newCash (unrounded (sample AllIn) sampleFinal 1) = 0
   \<and> cashOut (unrounded (sample AllIn) sampleFinal 1) = 0"
proof -
  let ?ps = "[\<lparr>period = 1, startValue = 0, newCash = 1000, totalInvested = 1000, profit = 100,
          afterGrowth = 1100, cashOut = 0, endValue = 1100\<rparr>,
        \<lparr>period = 2, startValue = 1100, newCash = 0, totalInvested = 1100, profit = 110,
          afterGrowth = 1210, cashOut = 100, endValue = 1110\<rparr>,
        \<lparr>period = 3, startValue = 1110, newCash = 0, totalInvested = 1110, profit = 111,
          afterGrowth = 1221, cashOut = 100, endValue = 1121\<rparr>]"
  let ?qs = "[\<lparr>period = 1, startValue = 0, newCash = 1000, totalInvested = 1000, profit = 100,
          afterGrowth = 1100, cashOut = 0, endValue = 1100\<rparr>,
        \<lparr>period = 2, startValue = 1100, newCash = 0, totalInvested = 1100, profit = 110,
          afterGrowth = 1210, cashOut = 0, endValue = 1210\<rparr>,
        \<lparr>period = 3, startValue = 1210, newCash = 0, totalInvested = 1210, profit = 121,
          afterGrowth = 1331, cashOut = 0, endValue = 1331\<rparr>]"
  have h1: "finalData (sample s) = Some sampleFinal" for s by (rule sample_finalData)
  have h2: "futureProjections (sample TakeSalary) = Some ?ps"
    unfolding sample_projections by code_simp
  have h2': "futureProjections (sample AllIn) = Some ?qs"
    unfolding sample_projections by code_simp
  have h3: "1 < length ?ps" and h3': "1 < length ?qs" by simp_all
  have p: "0 < investmentAmount (sample TakeSalary)" and r: "0 < rate (sample TakeSalary)"
    by (simp_all add: sample_def defaults_def rate_def perPeriodRate_def)
  have b: "fst (carried (sample TakeSalary) sampleFinal 1) = 1100" by code_simp
  have m: "cashMoves (sample TakeSalary) sampleFinal 1"
    unfolding cashMoves_def using b by (simp add: sample_def defaults_def del: carried.simps)
  have co: "cashOut (unrounded (sample TakeSalary) sampleFinal 1) = 100" by code_simp
  have a: "reinvestmentStrategy (sample AllIn) = AllIn \<and> 1 \<le> (1::nat)"
    by (simp add: sample_def)
  from C8_cash_flows[OF h1 h2 h3] p r m
  have "(newCash (unrounded (sample TakeSalary) sampleFinal 1) = 0) \<noteq>
        (cashOut (unrounded (sample TakeSalary) sampleFinal 1) = 0)"
    by blast
  moreover from C8_cash_flows[OF h1 h2' h3'] a
  have "newCash (unrounded (sample AllIn) sampleFinal 1) = 0
        \<and> cashOut (unrounded (sample AllIn) sampleFinal 1) = 0"
    by blast
  ultimately show ?thesis using h2 h2' p r m co by blast
qed

text \<open>C8 as stated (exactly one is non-zero outside all-in) fails: under take-salary
  with a salary above the balance, period 2 empties the account and period 3 has
  \<open>newCash = cashOut = 0\<close>.\<close>

theorem C8_both_zero_under_take_salary:
  "futureProjections ((sample TakeSalary)\<lparr>salaryAmount := 5000\<rparr>) = Some
       [\<lparr>period = 1, startValue = 0, newCash = 1000, totalInvested = 1000, profit = 100,
          afterGrowth = 1100, cashOut = 0, endValue = 1100\<rparr>,
        \<lparr>period = 2, startValue = 1100, newCash = 0, totalInvested = 1100, profit = 110,
          afterGrowth = 1210, cashOut = 1210, endValue = 0\<rparr>,
        \<lparr>period = 3, startValue = 0, newCash = 0, totalInvested = 0, profit = 0,
          afterGrowth = 0, cashOut = 0, endValue = 0\<rparr>]
   \<and> reinvestmentStrategy ((sample TakeSalary)\<lparr>salaryAmount := 5000\<rparr>) \<noteq> AllIn
   \<and> newCash (the (futureProjections ((sample TakeSalary)\<lparr>salaryAmount := 5000\<rparr>)) ! 2) = 0
   \<and> cashOut (the (futureProjections ((sample TakeSalary)\<lparr>salaryAmount := 5000\<rparr>)) ! 2) = 0"
proof -
  have fd: "finalData ((sample TakeSalary)\<lparr>salaryAmount := 5000\<rparr>) = Some sampleFinal"
    by (rule finalData_lump) (simp_all add: sample_def defaults_def)
  have "futureProjections ((sample TakeSalary)\<lparr>salaryAmount := 5000\<rparr>) = Some
       [\<lparr>period = 1, startValue = 0, newCash = 1000, totalInvested = 1000, profit = 100,
          afterGrowth = 1100, cashOut = 0, endValue = 1100\<rparr>,
        \<lparr>period = 2, startValue = 1100, newCash = 0, totalInvested = 1100, profit = 110,
          afterGrowth = 1210, cashOut = 1210, endValue = 0\<rparr>,
        \<lparr>period = 3, startValue = 0, newCash = 0, totalInvested = 0, profit = 0,
          afterGrowth = 0, cashOut = 0, endValue = 0\<rparr>]"
    unfolding futureProjections_unfold[OF fd] by code_simp
  then show ?thesis by (simp add: sample_def)
qed

subsection \<open>Take-salary: an empty balance stays empty\<close>

lemma takeSalary_zero:
  assumes "reinvestmentStrategy cfg = TakeSalary" and "0 \<le> salaryAmount cfg" and "i \<noteq> 1"
  shows "iteration cfg fd i 0 pp =
           \<lparr>period = i, startValue = 0, newCash = 0, totalInvested = 0, profit = 0,
            afterGrowth = 0, cashOut = 0, endValue = 0\<rparr>"
  using assms by (simp add: iteration_def applyStrategy_def Let_def)

lemma takeSalary_carried_zero:
  assumes "reinvestmentStrategy cfg = TakeSalary" and "0 \<le> salaryAmount cfg"
    and "1 \<le> k" and "fst (carried cfg fd k) = 0" and "k \<le> j"
  shows "fst (carried cfg fd j) = 0"
  using assms(5)
proof (induction j)
  case 0
  then show ?case using assms(3) by simp
next
  case (Suc j)
  show ?case
  proof (cases "k = Suc j")
    case True
    then show ?thesis using assms(4) by simp
  next
    case False
    then have kj: "k \<le> j" using Suc.prems by simp
    then have z: "fst (carried cfg fd j) = 0" by (rule Suc.IH)
    have "int j + 1 \<noteq> 1" using kj assms(3) by simp
    from takeSalary_zero[OF assms(1,2) this] show ?thesis
      by (simp add: z)
  qed
qed

text \<open>
  C10. Under take-salary with a non-negative salary, if the carried balance is \<open>0\<close> on
  entering period \<open>k + 1 \<ge> 2\<close>, then in that period and in every later one (\<open>j \<ge> k\<close>)
  \<open>startValue\<close>, \<open>cashOut\<close> and \<open>endValue\<close> are \<open>0\<close>, unrounded and as stored, and the
  balance carried on is \<open>0\<close> again.
\<close>

theorem C10_take_salary_zero_absorbing:
  assumes "finalData cfg = Some fd" and "futureProjections cfg = Some ps"
    and "reinvestmentStrategy cfg = TakeSalary" and "0 \<le> salaryAmount cfg"
    and "1 \<le> k" and "fst (carried cfg fd k) = 0" and "k \<le> j" and "j < length ps"
  shows "startValue (unrounded cfg fd j) = 0 \<and> cashOut (unrounded cfg fd j) = 0
       \<and> endValue (unrounded cfg fd j) = 0 \<and> fst (carried cfg fd (Suc j)) = 0
       \<and> startValue (ps ! j) = 0 \<and> cashOut (ps ! j) = 0 \<and> endValue (ps ! j) = 0"
proof -
  have z: "fst (carried cfg fd j) = 0"
    by (rule takeSalary_carried_zero[OF assms(3,4,5,6,7)])
  have "int j + 1 \<noteq> 1" using assms(5,7) by simp
  from takeSalary_zero[OF assms(3,4) this]
  have u: "unrounded cfg fd j =
             \<lparr>period = int j + 1, startValue = 0, newCash = 0, totalInvested = 0, profit = 0,
              afterGrowth = 0, cashOut = 0, endValue = 0\<rparr>"
    by (simp add: unrounded_def z)
  have "ps ! j = rounded (unrounded cfg fd j)"
    by (rule futureProjections_nth(2)[OF assms(1,2,8)])
  moreover have "fst (carried cfg fd (Suc j)) = endValue (unrounded cfg fd j)"
    by (simp only: carried_Suc fst_conv)
  ultimately show ?thesis
    using u by (simp add: rounded_def Math_round_0 del: carried.simps)
qed

theorem C10_take_salary_zero_absorbing_witness:
  "finalData ((sample TakeSalary)\<lparr>salaryAmount := 5000\<rparr>) = Some sampleFinal
   \<and> futureProjections ((sample TakeSalary)\<lparr>salaryAmount := 5000\<rparr>) = Some
       [\<lparr>period = 1, startValue = 0, newCash = 1000, totalInvested = 1000, profit = 100,
          afterGrowth = 1100, cashOut = 0, endValue = 1100\<rparr>,
        \<lparr>period = 2, startValue = 1100, newCash = 0, totalInvested = 1100, profit = 110,
          afterGrowth = 1210, cashOut = 1210, endValue = 0\<rparr>,
        \<lparr>period = 3, startValue = 0, newCash = 0, totalInvested = 0, profit = 0,
          afterGrowth = 0, cashOut = 0, endValue = 0\<rparr>]
   \<and> fst (carried ((sample TakeSalary)\<lparr>salaryAmount := 5000\<rparr>) sampleFinal 2) = 0
   \<and> endValue (unrounded ((sample TakeSalary)\<lparr>salaryAmount := 5000\<rparr>) sampleFinal 2) = 0
   \<and> fst (carried ((sample TakeSalary)\<lparr>salaryAmount := 5000\<rparr>) sampleFinal 3) = 0"
proof -
  let ?c = "(sample TakeSalary)\<lparr>salaryAmount := 5000\<rparr>"
  let ?ps = "[\<lparr>period = 1, startValue = 0, newCash = 1000, totalInvested = 1000, profit = 100,
          afterGrowth = 1100, cashOut = 0, endValue = 1100\<rparr>,
        \<lparr>period = 2, startValue = 1100, newCash = 0, totalInvested = 1100, profit = 110,
          afterGrowth = 1210, cashOut = 1210, endValue = 0\<rparr>,
        \<lparr>period = 3, startValue = 0, newCash = 0, totalInvested = 0, profit = 0,
          afterGrowth = 0, cashOut = 0, endValue = 0\<rparr>]"
  have h1: "finalData ?c = Some sampleFinal"
    by (rule finalData_lump) (simp_all add: sample_def defaults_def)
  have h2: "futureProjections ?c = Some ?ps"
    unfolding futureProjections_unfold[OF h1] by code_simp
  have h3: "reinvestmentStrategy ?c = TakeSalary" and h4: "0 \<le> salaryAmount ?c"
    by (simp_all add: sample_def)
  have h5: "1 \<le> (2::nat)" and h7: "(2::nat) \<le> 2" and h8: "2 < length ?ps" by simp_all
  have h6: "fst (carried ?c sampleFinal 2) = 0" by code_simp
  from C10_take_salary_zero_absorbing[OF h1 h2 h3 h4 h5 h6 h7 h8] show ?thesis
    using h1 h2 h6 by (simp add: numeral_3_eq_3 del: carried.simps)
qed

subsection \<open>The lump-sum series is linear\<close>

lemma calculations_once:
  "frequency cfg = Once \<Longrightarrow>
   calculations cfg =
     map (\<lambda>j. growthPoint cfg j (investmentAmount cfg) (periodValue cfg j)) [0..duration cfg]"
  by (simp add: calculations_def once_loop_eq)

lemma periodValue_spec:
  "periodValue cfg i =
     spec_lumpSumValue (investmentAmount cfg) (roiPercentage cfg / 100) (enableInflation cfg)
       (inflationRate cfg / 100) i"
  by (simp add: periodValue_def periodRate_def periodInflation_def spec_lumpSumValue_def)

text \<open>
  C6. In lump-sum mode the unrounded value at elapsed month \<open>i\<close>, \<open>0 \<le> i \<le> duration\<close>, is
  the specification's linear formula (at \<open>i = 0\<close> the code returns the principal, which is
  what the formula gives); the point emitted at index \<open>i\<close> stores its rounding as
  \<open>currentValue\<close>; and for principal 1000, annual rate 10 percent, no inflation, the
  \<open>currentValue\<close> of period 12 is 1100.
\<close>

theorem C6_lump_sum_linear:
  assumes "frequency cfg = Once" and "0 \<le> i" and "i \<le> duration cfg"
  shows "periodValue cfg i =
           spec_lumpSumValue (investmentAmount cfg) (roiPercentage cfg / 100)
             (enableInflation cfg) (inflationRate cfg / 100) i
       \<and> calculations cfg ! nat i = growthPoint cfg i (investmentAmount cfg) (periodValue cfg i)
       \<and> currentValue (calculations cfg ! nat i) = Math_round (periodValue cfg i)
       \<and> (investmentAmount cfg = 1000 \<and> roiPercentage cfg = 10 \<and> \<not> enableInflation cfg
            \<and> i = 12 \<longrightarrow> currentValue (calculations cfg ! 12) = 1100)"
proof -
  have len: "nat i < length [0..duration cfg]" using assms(2,3) by simp
  have "[0..duration cfg] ! nat i = i" using assms(2,3) by simp
  then have nth: "calculations cfg ! nat i =
                    growthPoint cfg i (investmentAmount cfg) (periodValue cfg i)"
    using len by (simp add: calculations_once[OF assms(1)] del: length_upto)
  then have cv: "currentValue (calculations cfg ! nat i) = Math_round (periodValue cfg i)"
    by (simp add: growthPoint_def)
  have "currentValue (calculations cfg ! 12) = 1100"
    if "investmentAmount cfg = 1000" "roiPercentage cfg = 10" "\<not> enableInflation cfg" "i = 12"
  proof -
    have "periodValue cfg 12 = 1100"
      using that by (simp add: periodValue_def periodRate_def periodInflation_def)
    then show ?thesis using cv that(4) by (simp add: Math_round_def)
  qed
  then show ?thesis using nth cv periodValue_spec by blast
qed

theorem C6_lump_sum_linear_witness:
  "frequency (defaults\<lparr>frequency := Once\<rparr>) = Once
   \<and> (12::int) \<le> duration (defaults\<lparr>frequency := Once\<rparr>)
   \<and> periodValue (defaults\<lparr>frequency := Once\<rparr>) 12 = 1100
   \<and> currentValue (calculations (defaults\<lparr>frequency := Once\<rparr>) ! 12) = 1100"
proof -
  let ?c = "defaults\<lparr>frequency := Once\<rparr>"
  have h1: "frequency ?c = Once" by simp
  have h2: "(0::int) \<le> 12" by simp
  have h3: "12 \<le> duration ?c" by (simp add: defaults_def)
  have f: "investmentAmount ?c = 1000" "roiPercentage ?c = 10" "\<not> enableInflation ?c"
    "inflationRate ?c = 3"
    by (simp_all add: defaults_def)
  from C6_lump_sum_linear[OF h1 h2 h3]
  have a: "periodValue ?c 12 =
             spec_lumpSumValue (investmentAmount ?c) (roiPercentage ?c / 100)
               (enableInflation ?c) (inflationRate ?c / 100) 12"
    and b: "investmentAmount ?c = 1000 \<and> roiPercentage ?c = 10 \<and> \<not> enableInflation ?c
            \<and> (12::int) = 12 \<longrightarrow> currentValue (calculations ?c ! 12) = 1100"
    by blast+
  have "periodValue ?c 12 = 1100"
    using a f by (simp add: spec_lumpSumValue_def)
  moreover have "currentValue (calculations ?c ! 12) = 1100" using b f by blast
  ultimately show ?thesis using h1 h3 by blast
qed

subsection \<open>The profit identity on the stored fields\<close>

lemma recurring_loop_eq:
  "recurring_loop cfg (int j) (fst (running cfg j)) (snd (running cfg j)) data =
     data @ map (\<lambda>i. growthPoint cfg (int i) (fst (running cfg (Suc i)))
                        (snd (running cfg (Suc i))))
              [j..<nat (totalPeriods cfg + 1)]"
proof (induction "nat (totalPeriods cfg + 1) - j" arbitrary: j data)
  case 0
  then have "\<not> int j \<le> totalPeriods cfg" by linarith
  moreover have "[j..<nat (totalPeriods cfg + 1)] = []" using 0 by simp
  ultimately show ?case by (subst recurring_loop.simps) simp
next
  case (Suc n)
  then have le: "int j \<le> totalPeriods cfg"
    and n: "n = nat (totalPeriods cfg + 1) - Suc j"
    by linarith+
  have lt: "j < nat (totalPeriods cfg + 1)" using le by linarith
  let ?pt = "growthPoint cfg (int j) (fst (running cfg (Suc j))) (snd (running cfg (Suc j)))"
  have "recurring_loop cfg (int (Suc j)) (fst (running cfg (Suc j))) (snd (running cfg (Suc j)))
          (data @ [?pt]) =
        (data @ [?pt]) @
          map (\<lambda>i. growthPoint cfg (int i) (fst (running cfg (Suc i)))
                       (snd (running cfg (Suc i))))
            [Suc j..<nat (totalPeriods cfg + 1)]"
    using Suc.hyps(1)[OF n] .
  moreover have "recurring_loop cfg (int j) (fst (running cfg j)) (snd (running cfg j)) data =
        recurring_loop cfg (int (Suc j)) (fst (running cfg (Suc j))) (snd (running cfg (Suc j)))
          (data @ [?pt])"
    using le by (subst recurring_loop.simps) (simp add: add.commute)
  ultimately show ?case using lt by (simp add: upt_conv_Cons del: running.simps)
qed

lemma calculations_nth:
  assumes "k < length (calculations cfg)"
  shows "calculations cfg ! k =
           growthPoint cfg (int k) (unroundedInvested cfg k) (unroundedValue cfg k)"
proof (cases "frequency cfg = Once")
  case True
  have c: "calculations cfg =
          map (\<lambda>j. growthPoint cfg j (investmentAmount cfg) (periodValue cfg j)) [0..duration cfg]"
    using True by (simp add: calculations_def once_loop_eq)
  then have len: "k < length [0..duration cfg]" using assms by simp
  then have "[0..duration cfg] ! k = int k" by simp
  then show ?thesis
    using True len by (simp add: c unroundedInvested_def unroundedValue_def del: length_upto)
next
  case False
  have c: "calculations cfg =
          map (\<lambda>i. growthPoint cfg (int i) (fst (running cfg (Suc i)))
                       (snd (running cfg (Suc i))))
            [0..<nat (totalPeriods cfg + 1)]"
    using False recurring_loop_eq[of cfg 0 "[]"] by (simp add: calculations_def)
  then have "k < nat (totalPeriods cfg + 1)" using assms by simp
  then show ?thesis
    using False by (simp add: c unroundedInvested_def unroundedValue_def del: running.simps)
qed

lemma running_invested_int: "investmentAmount cfg \<in> \<int> \<Longrightarrow> fst (running cfg j) \<in> \<int>"
  by (induction j) (simp_all add: nextInvested_def)

lemma unroundedInvested_int: "investmentAmount cfg \<in> \<int> \<Longrightarrow> unroundedInvested cfg k \<in> \<int>"
  by (simp add: unroundedInvested_def running_invested_int del: running.simps)

text \<open>
  C2, as the code has it. The identity holds before rounding: the loop computes the profit
  as value minus invested total and stores \<open>Math.round\<close> of each of the three on its own.
  On the stored fields \<open>profit\<close> and \<open>currentValue - totalInvested\<close> therefore differ by at
  most 1 in every point of every series, and they are equal when the investment amount is
  a whole number and the unrounded value lies between the invested total and twice the
  invested total (a gain between 0 and 100 percent). The range is not needed over the
  reals, where a whole amount suffices; it is the range in which the subtraction of two
  doubles is exact, outside of which the rounded difference computed by the code can sit
  on the other side of a half than the exact one (a whole amount of 5 at -90 percent stores
  5, 0 and -4). The deflator is assumed not to be zero.
\<close>

theorem C2_profit_identity:
  assumes "deflator_finite cfg" and "k < length (calculations cfg)"
  shows "CalculationData.totalInvested (calculations cfg ! k) = Math_round (unroundedInvested cfg k)
       \<and> currentValue (calculations cfg ! k) = Math_round (unroundedValue cfg k)
       \<and> CalculationData.profit (calculations cfg ! k) = Math_round (unroundedProfit cfg k)
       \<and> unroundedProfit cfg k = unroundedValue cfg k - unroundedInvested cfg k
       \<and> \<bar>CalculationData.profit (calculations cfg ! k) -
            (currentValue (calculations cfg ! k) -
             CalculationData.totalInvested (calculations cfg ! k))\<bar> \<le> 1
       \<and> (investmentAmount cfg \<in> \<int> \<and> unroundedInvested cfg k \<le> unroundedValue cfg k
            \<and> unroundedValue cfg k \<le> 2 * unroundedInvested cfg k \<longrightarrow>
            CalculationData.profit (calculations cfg ! k) =
              currentValue (calculations cfg ! k) -
              CalculationData.totalInvested (calculations cfg ! k))"
proof -
  let ?p = "calculations cfg ! k"
  have p: "?p = growthPoint cfg (int k) (unroundedInvested cfg k) (unroundedValue cfg k)"
    by (rule calculations_nth[OF assms(2)])
  have f: "CalculationData.totalInvested ?p = Math_round (unroundedInvested cfg k)"
    "currentValue ?p = Math_round (unroundedValue cfg k)"
    "CalculationData.profit ?p = Math_round (unroundedProfit cfg k)"
    by (simp_all add: p growthPoint_def unroundedProfit_def)
  have near: "\<bar>CalculationData.profit ?p -
                (currentValue ?p - CalculationData.totalInvested ?p)\<bar> \<le> 1"
    unfolding f unroundedProfit_def by (rule Math_round_diff_near)
  have exact: "CalculationData.profit ?p = currentValue ?p - CalculationData.totalInvested ?p"
    if "investmentAmount cfg \<in> \<int>"
    unfolding f unroundedProfit_def
    by (rule Math_round_diff_int[OF unroundedInvested_int[OF that]])
  show ?thesis using f near exact by (simp add: unroundedProfit_def)
qed

theorem C2_profit_identity_witness:
  "deflator_finite (defaults\<lparr>duration := 2, enableInflation := True\<rparr>)
   \<and> calculations (defaults\<lparr>duration := 2, enableInflation := True\<rparr>) =
       [\<lparr>CalculationData.period = 0, CalculationData.totalInvested = 0, currentValue = 0,
          CalculationData.profit = 0, displayValue = 0\<rparr>,
        \<lparr>CalculationData.period = 1, CalculationData.totalInvested = 1000, currentValue = 1006,
          CalculationData.profit = 6, displayValue = 1006\<rparr>,
        \<lparr>CalculationData.period = 2, CalculationData.totalInvested = 2000, currentValue = 2017,
          CalculationData.profit = 17, displayValue = 2017\<rparr>]
   \<and> investmentAmount (defaults\<lparr>duration := 2, enableInflation := True\<rparr>) \<in> \<int>
   \<and> unroundedInvested (defaults\<lparr>duration := 2, enableInflation := True\<rparr>) 2 = 2000
   \<and> unroundedValue (defaults\<lparr>duration := 2, enableInflation := True\<rparr>) 2 =
       2919730000 / 1447209
   \<and> unroundedProfit (defaults\<lparr>duration := 2, enableInflation := True\<rparr>) 2 =
       2919730000 / 1447209 - 2000
   \<and> CalculationData.profit
        (calculations (defaults\<lparr>duration := 2, enableInflation := True\<rparr>) ! 2) =
       currentValue (calculations (defaults\<lparr>duration := 2, enableInflation := True\<rparr>) ! 2) -
       CalculationData.totalInvested
        (calculations (defaults\<lparr>duration := 2, enableInflation := True\<rparr>) ! 2)"
proof -
  let ?c = "defaults\<lparr>duration := 2, enableInflation := True\<rparr>"
  have h1: "deflator_finite ?c"
    by (simp add: deflator_finite_def inflationPerPeriod_def periodsPerYear_def defaults_def)
  have c: "calculations ?c =
       [\<lparr>CalculationData.period = 0, CalculationData.totalInvested = 0, currentValue = 0,
          CalculationData.profit = 0, displayValue = 0\<rparr>,
        \<lparr>CalculationData.period = 1, CalculationData.totalInvested = 1000, currentValue = 1006,
          CalculationData.profit = 6, displayValue = 1006\<rparr>,
        \<lparr>CalculationData.period = 2, CalculationData.totalInvested = 2000, currentValue = 2017,
          CalculationData.profit = 17, displayValue = 2017\<rparr>]"
    by code_simp
  then have h2: "2 < length (calculations ?c)" by simp
  have i: "investmentAmount ?c \<in> \<int>" by (simp add: defaults_def)
  have inv: "unroundedInvested ?c 2 = 2000" by code_simp
  have val: "unroundedValue ?c 2 = 2919730000 / 1447209" by code_simp
  have range: "unroundedInvested ?c 2 \<le> unroundedValue ?c 2"
    "unroundedValue ?c 2 \<le> 2 * unroundedInvested ?c 2"
    unfolding inv val by simp_all
  from C2_profit_identity[OF h1 h2]
  have "unroundedProfit ?c 2 = unroundedValue ?c 2 - unroundedInvested ?c 2"
    and "investmentAmount ?c \<in> \<int> \<and> unroundedInvested ?c 2 \<le> unroundedValue ?c 2
            \<and> unroundedValue ?c 2 \<le> 2 * unroundedInvested ?c 2 \<longrightarrow>
            CalculationData.profit (calculations ?c ! 2) =
              currentValue (calculations ?c ! 2) -
              CalculationData.totalInvested (calculations ?c ! 2)"
    by blast+
  then have "unroundedProfit ?c 2 = 2919730000 / 1447209 - 2000"
    and "CalculationData.profit (calculations ?c ! 2) =
              currentValue (calculations ?c ! 2) -
              CalculationData.totalInvested (calculations ?c ! 2)"
    using i range by (simp_all only: inv val)
  then show ?thesis using h1 c i inv val by blast
qed

text \<open>C2 as stated (every series) fails for an amount with cents: a lump sum of
  1005.50 at 10 percent stores \<open>totalInvested = 1006\<close>, \<open>currentValue = 1106\<close> and
  \<open>profit = 101\<close> for month 12.\<close>

theorem C2_rounded_identity_fails:
  "last (calculations (defaults\<lparr>frequency := Once, investmentAmount := 1005.5\<rparr>)) =
     \<lparr>CalculationData.period = 12, CalculationData.totalInvested = 1006, currentValue = 1106,
      CalculationData.profit = 101, displayValue = 1106\<rparr>
   \<and> CalculationData.profit (last (calculations (defaults\<lparr>frequency := Once, investmentAmount := 1005.5\<rparr>))) \<noteq>
       currentValue (last (calculations (defaults\<lparr>frequency := Once, investmentAmount := 1005.5\<rparr>))) -
       CalculationData.totalInvested (last (calculations (defaults\<lparr>frequency := Once, investmentAmount := 1005.5\<rparr>)))"
proof -
  have "last (calculations (defaults\<lparr>frequency := Once, investmentAmount := 1005.5\<rparr>)) =
     \<lparr>CalculationData.period = 12, CalculationData.totalInvested = 1006, currentValue = 1106,
      CalculationData.profit = 101, displayValue = 1106\<rparr>"
    by code_simp
  then show ?thesis by simp
qed

subsection \<open>The two starting references\<close>

lemma custom_iteration:
  assumes "reinvestmentStrategy cfg = Custom" and "i \<noteq> 1"
  shows "newCash (iteration cfg fd i b pp) =
           (if customPerPeriodAmount cfg fd \<ge> 0 then customPerPeriodAmount cfg fd else 0)"
    and "cashOut (iteration cfg fd i b pp) =
           (if customPerPeriodAmount cfg fd \<ge> 0 then 0
            else min \<bar>customPerPeriodAmount cfg fd\<bar> (b * (1 + rate cfg)))"
  using assms by (simp_all add: iteration_def applyStrategy_def Let_def)

lemma finalData_last: "finalData cfg = Some fd \<Longrightarrow> fd = last (calculations cfg)"
  by (simp add: finalData_def split: if_splits)

text \<open>
  C9. The bootstrap of period 1 injects the principal \<open>investmentAmount\<close> as \<open>newCash\<close>, under
  every configuration, while the custom strategy computes its per-period amount by calling
  the solver on the \<open>currentValue\<close> of the last point of the historical series: from period 2
  on, \<open>newCash\<close> and \<open>cashOut\<close> are that amount's positive part and its clamped magnitude
  (the solver's result being assumed finite).
\<close>

theorem C9_bootstrap_principal_solver_final_value:
  assumes "finalData cfg = Some fd" and "futureProjections cfg = Some ps" and "0 < length ps"
    and "solver_finite cfg fd"
  shows "newCash (unrounded cfg fd 0) = investmentAmount cfg
       \<and> newCash (ps ! 0) = Math_round (investmentAmount cfg)
       \<and> (reinvestmentStrategy cfg = Custom \<longrightarrow>
            (\<forall>k. Suc k < length ps \<longrightarrow>
               newCash (unrounded cfg fd (Suc k)) =
                 (let amount = calculatePerPeriodInvestment
                                 (currentValue (last (calculations cfg)))
                                 (customTargetAmount cfg) (projectionDuration cfg)
                                 (roiPercentage cfg / 100) (projectionFrequency cfg)
                  in if amount \<ge> 0 then amount else 0)
             \<and> cashOut (unrounded cfg fd (Suc k)) =
                 (let amount = calculatePerPeriodInvestment
                                 (currentValue (last (calculations cfg)))
                                 (customTargetAmount cfg) (projectionDuration cfg)
                                 (roiPercentage cfg / 100) (projectionFrequency cfg)
                  in if amount \<ge> 0 then 0
                     else min \<bar>amount\<bar> (endValue (unrounded cfg fd k) * (1 + rate cfg)))))"
proof -
  have fd: "fd = last (calculations cfg)" by (rule finalData_last[OF assms(1)])
  have "ps ! 0 = rounded (unrounded cfg fd 0)"
    by (rule futureProjections_nth(2)[OF assms(1,2,3)])
  then have boot: "newCash (unrounded cfg fd 0) = investmentAmount cfg"
      "newCash (ps ! 0) = Math_round (investmentAmount cfg)"
    by (simp_all add: unrounded_0 rounded_def)
  have "int k + 2 \<noteq> 1" for k by simp
  then show ?thesis
    using boot fd
    by (simp add: unrounded_Suc custom_iteration customPerPeriodAmount_def Let_def)
qed

theorem C9_bootstrap_principal_solver_final_value_witness:
  "finalData (sample Custom) = Some sampleFinal
   \<and> solver_finite (sample Custom) sampleFinal
   \<and> newCash (the (futureProjections (sample Custom)) ! 0) = 1000
   \<and> investmentAmount (sample Custom) = 1000
   \<and> currentValue (last (calculations (sample Custom))) = 1100
   \<and> calculatePerPeriodInvestment 1100 50000 3 (10 / 100) PYearly = 4853590 / 331
   \<and> calculatePerPeriodInvestment 1000 50000 3 (10 / 100) PYearly = 4866900 / 331
   \<and> newCash (unrounded (sample Custom) sampleFinal 1) = 4853590 / 331"
proof -
  let ?ps = "[\<lparr>period = 1, startValue = 0, newCash = 1000, totalInvested = 1000, profit = 100,
          afterGrowth = 1100, cashOut = 0, endValue = 1100\<rparr>,
        \<lparr>period = 2, startValue = 1100, newCash = 14663, totalInvested = 15763,
          profit = 1576, afterGrowth = 17340, cashOut = 0, endValue = 17340\<rparr>,
        \<lparr>period = 3, startValue = 17340, newCash = 14663, totalInvested = 32003,
          profit = 3200, afterGrowth = 35203, cashOut = 0, endValue = 35203\<rparr>]"
  have h1: "finalData (sample Custom) = Some sampleFinal" by (rule sample_finalData)
  have h2: "futureProjections (sample Custom) = Some ?ps"
    unfolding sample_projections by code_simp
  have h3: "0 < length ?ps" by simp
  have l: "last (calculations (sample Custom)) = sampleFinal"
    using finalData_last[OF h1] by simp
  have s1: "calculatePerPeriodInvestment 1100 50000 3 (10 / 100) PYearly = 4853590 / 331"
    and s2: "calculatePerPeriodInvestment 1000 50000 3 (10 / 100) PYearly = 4866900 / 331"
    by code_simp+
  have f: "customTargetAmount (sample Custom) = 50000" "projectionDuration (sample Custom) = 3"
    "roiPercentage (sample Custom) = 10" "projectionFrequency (sample Custom) = PYearly"
    "investmentAmount (sample Custom) = 1000" "reinvestmentStrategy (sample Custom) = Custom"
    "currentValue sampleFinal = 1100"
    by (simp_all add: sample_def defaults_def sampleFinal_def)
  have h4: "solver_finite (sample Custom) sampleFinal"
    by (simp add: solver_finite_def deflator_finite_def sample_def defaults_def rate_def
        perPeriodRate_def power3_eq_cube)
  from C9_bootstrap_principal_solver_final_value[OF h1 h2 h3 h4]
  have a: "newCash (?ps ! 0) = Math_round (investmentAmount (sample Custom))"
    and b: "reinvestmentStrategy (sample Custom) = Custom \<longrightarrow>
            (\<forall>k. Suc k < length ?ps \<longrightarrow>
               newCash (unrounded (sample Custom) sampleFinal (Suc k)) =
                 (let amount = calculatePerPeriodInvestment
                                 (currentValue (last (calculations (sample Custom))))
                                 (customTargetAmount (sample Custom))
                                 (projectionDuration (sample Custom))
                                 (roiPercentage (sample Custom) / 100)
                                 (projectionFrequency (sample Custom))
                  in if amount \<ge> 0 then amount else 0)
             \<and> cashOut (unrounded (sample Custom) sampleFinal (Suc k)) =
                 (let amount = calculatePerPeriodInvestment
                                 (currentValue (last (calculations (sample Custom))))
                                 (customTargetAmount (sample Custom))
                                 (projectionDuration (sample Custom))
                                 (roiPercentage (sample Custom) / 100)
                                 (projectionFrequency (sample Custom))
                  in if amount \<ge> 0 then 0
                     else min \<bar>amount\<bar>
                            (endValue (unrounded (sample Custom) sampleFinal k) *
                             (1 + rate (sample Custom)))))"
    by blast+
  have "Suc 0 < length ?ps" by simp
  with b f(6) have "newCash (unrounded (sample Custom) sampleFinal (Suc 0)) =
                 (let amount = calculatePerPeriodInvestment
                                 (currentValue (last (calculations (sample Custom))))
                                 (customTargetAmount (sample Custom))
                                 (projectionDuration (sample Custom))
                                 (roiPercentage (sample Custom) / 100)
                                 (projectionFrequency (sample Custom))
                  in if amount \<ge> 0 then amount else 0)"
    by blast
  then have n1: "newCash (unrounded (sample Custom) sampleFinal 1) = 4853590 / 331"
    unfolding l f s1 by (simp add: s1)
  show ?thesis
    using h1 h2 h4 l s1 s2 n1 f(5,7) by simp
qed

subsection \<open>The solver's round trip\<close>

text \<open>
  The solver inverts the future value of an ordinary annuity (contribution at the end of
  the period), as its comment says. The level-up arm and the investing branch of the custom
  arm add the contribution at the start of the period and then grow it, so feeding the
  solver's result through them overshoots the target by \<open>r \<times> (target - start \<times> (1 + r)^n)\<close>
  (lemma \<open>levelUpForward_solver\<close>). The withdrawing branch of the custom arm grows first and
  withdraws at the end, and does land on the target while its clamps are idle (lemma
  \<open>withdrawForward_solver\<close>).
\<close>

lemma levelUp_arm:
  "reinvestmentStrategy cfg = LevelUp \<Longrightarrow>
   applyStrategy cfg fd b pp = (levelUpAmount cfg, 0, (b + levelUpAmount cfg) * (1 + rate cfg))"
  by (simp add: applyStrategy_def)

lemma custom_invest_arm:
  "reinvestmentStrategy cfg = Custom \<Longrightarrow> 0 \<le> customPerPeriodAmount cfg fd \<Longrightarrow>
   applyStrategy cfg fd b pp =
     (customPerPeriodAmount cfg fd, 0, (b + customPerPeriodAmount cfg fd) * (1 + rate cfg))"
  by (simp add: applyStrategy_def Let_def)

lemma custom_withdraw_arm:
  "reinvestmentStrategy cfg = Custom \<Longrightarrow> customPerPeriodAmount cfg fd < 0 \<Longrightarrow>
   \<bar>customPerPeriodAmount cfg fd\<bar> \<le> b * (1 + rate cfg) \<Longrightarrow>
   applyStrategy cfg fd b pp =
     (0, \<bar>customPerPeriodAmount cfg fd\<bar>, b * (1 + rate cfg) - \<bar>customPerPeriodAmount cfg fd\<bar>)"
  by (simp add: applyStrategy_def Let_def)

lemma levelUpForward_closed:
  "r \<noteq> 0 \<Longrightarrow>
   levelUpForward r C n b = b * (1 + r) ^ n + C * (1 + r) * (((1 + r) ^ n - 1) / r)"
proof (induction n arbitrary: b)
  case 0
  then show ?case by simp
next
  case (Suc n)
  then show ?case by (simp add: field_simps)
qed

lemma withdrawForward_closed:
  "r \<noteq> 0 \<Longrightarrow> C < 0 \<Longrightarrow>
   withdrawForward r C n b = b * (1 + r) ^ n + C * (((1 + r) ^ n - 1) / r)"
proof (induction n arbitrary: b)
  case 0
  then show ?case by simp
next
  case (Suc n)
  then show ?case by (simp add: field_simps)
qed

lemma solver_annuity:
  assumes "0 < P" and "0 < n" and "perPeriodRate freq annualRate = r" and "r \<noteq> 0"
    and "(1 + r) ^ n \<noteq> 1"
  shows "calculatePerPeriodInvestment P T (int n) annualRate freq * (((1 + r) ^ n - 1) / r) =
           T - P * (1 + r) ^ n"
  using assms by (simp add: calculatePerPeriodInvestment_def Let_def)

lemma levelUpForward_solver:
  assumes "0 < P" and "0 < n" and "perPeriodRate freq annualRate = r" and "r \<noteq> 0"
    and "(1 + r) ^ n \<noteq> 1"
  shows "levelUpForward r (calculatePerPeriodInvestment P T (int n) annualRate freq) n P =
           T + r * (T - P * (1 + r) ^ n)"
proof -
  let ?C = "calculatePerPeriodInvestment P T (int n) annualRate freq"
  have "levelUpForward r ?C n P = P * (1 + r) ^ n + (1 + r) * (?C * (((1 + r) ^ n - 1) / r))"
    by (simp add: levelUpForward_closed[OF assms(4)])
  also have "\<dots> = P * (1 + r) ^ n + (1 + r) * (T - P * (1 + r) ^ n)"
    by (simp only: solver_annuity[OF assms])
  also have "\<dots> = T + r * (T - P * (1 + r) ^ n)" by (simp add: algebra_simps)
  finally show ?thesis .
qed

lemma withdrawForward_solver:
  assumes "0 < P" and "0 < n" and "perPeriodRate freq annualRate = r" and "r \<noteq> 0"
    and "(1 + r) ^ n \<noteq> 1"
    and "calculatePerPeriodInvestment P T (int n) annualRate freq < 0"
  shows "withdrawForward r (calculatePerPeriodInvestment P T (int n) annualRate freq) n P = T"
proof -
  let ?C = "calculatePerPeriodInvestment P T (int n) annualRate freq"
  have "withdrawForward r ?C n P = P * (1 + r) ^ n + ?C * (((1 + r) ^ n - 1) / r)"
    by (rule withdrawForward_closed[OF assms(4,6)])
  also have "\<dots> = P * (1 + r) ^ n + (T - P * (1 + r) ^ n)"
    by (simp only: solver_annuity[OF assms(1-5)])
  finally show ?thesis by simp
qed

text \<open>
  C3 at a concrete input: start 1000, target 10000, two yearly periods at 100 percent. The
  solver returns 2000; the level-up update gives \<open>(1000 + 2000) \<times> 2 = 6000\<close> and then
  \<open>(6000 + 2000) \<times> 2 = 16000\<close>, not 10000.
\<close>

theorem C3_round_trip_misses_target:
  "calculatePerPeriodInvestment 1000 10000 2 1 PYearly = 2000
   \<and> levelUpForward (perPeriodRate PYearly 1)
        (calculatePerPeriodInvestment 1000 10000 2 1 PYearly) 2 1000 = 16000"
  by code_simp

text \<open>The same at the default rate: start 1000, target 50000, three yearly periods at 10
  percent end at 54866.9.\<close>

lemma default_target_missed:
  "levelUpForward (perPeriodRate PYearly (10 / 100))
     (calculatePerPeriodInvestment 1000 50000 3 (10 / 100) PYearly) 3 1000 = 548669 / 10"
  by code_simp

end
